theory Spec2Isabelle
  imports Complex_Main
begin

section \<open>JavaScript values\<close>

text \<open>
  The values that flow through \<^verbatim>\<open>webhookHelpers.ts\<close>: record fields, filter values and the
  verdict of \<^verbatim>\<open>validateCondition\<close>. Strings are lists of 8-bit code units; numbers are
  integers (no claim depends on a fraction or on NaN); an object is its list of own
  properties in insertion order. \<open>JInherited k\<close> is what a plain object inherits under the
  key \<open>k\<close> from \<^verbatim>\<open>Object.prototype\<close>: a function, or the prototype itself.
\<close>

datatype jsval =
    JUndefined
  | JNull
  | JBool bool
  | JNum int
  | JStr string
  | JArr "jsval list"
  | JObj "(string \<times> jsval) list"
  | JInherited string

datatype error =
    TypeError
  | BadRequest string
  | NotImplemented string
  | ExternalError string

text \<open>ToBoolean: \<^verbatim>\<open>undefined\<close>, \<^verbatim>\<open>null\<close>, \<^verbatim>\<open>false\<close>, \<^verbatim>\<open>0\<close> and \<^verbatim>\<open>''\<close> are falsy.\<close>

fun truthy :: "jsval \<Rightarrow> bool" where
  "truthy JUndefined = False"
| "truthy JNull = False"
| "truthy (JBool b) = b"
| "truthy (JNum n) = (n \<noteq> 0)"
| "truthy (JStr s) = (s \<noteq> [])"
| "truthy (JArr xs) = True"
| "truthy (JObj ps) = True"
| "truthy (JInherited k) = True"

text \<open>The operators \<^verbatim>\<open>a || b\<close>, \<^verbatim>\<open>a && b\<close>, \<^verbatim>\<open>!a\<close> and \<^verbatim>\<open>a ?? b\<close>.\<close>

definition jsOr :: "jsval \<Rightarrow> jsval \<Rightarrow> jsval" where
  "jsOr a b = (if truthy a then a else b)"

definition jsAnd :: "jsval \<Rightarrow> jsval \<Rightarrow> jsval" where
  "jsAnd a b = (if truthy a then b else a)"

definition jsNot :: "jsval \<Rightarrow> jsval" where
  "jsNot a = JBool (\<not> truthy a)"

definition jsNullish :: "jsval \<Rightarrow> jsval \<Rightarrow> jsval" where
  "jsNullish a b = (if a = JNull \<or> a = JUndefined then b else a)"

text \<open>The keys every plain object inherits from \<^verbatim>\<open>Object.prototype\<close>.\<close>

definition objectPrototypeKeys :: "string list" where
  "objectPrototypeKeys =
     [''constructor'', ''__defineGetter__'', ''__defineSetter__'', ''hasOwnProperty'',
      ''__lookupGetter__'', ''__lookupSetter__'', ''isPrototypeOf'', ''propertyIsEnumerable'',
      ''toString'', ''valueOf'', ''__proto__'', ''toLocaleString'']"

text \<open>
  Reading a property of a plain object, \<^verbatim>\<open>data[field]\<close>: the own property, else what the
  object inherits under that key, else \<^verbatim>\<open>undefined\<close>.
\<close>

definition getField :: "(string \<times> jsval) list \<Rightarrow> string \<Rightarrow> jsval" where
  "getField ps k =
     (case map_of ps k of
        Some v \<Rightarrow> v
      | None \<Rightarrow> if k \<in> set objectPrototypeKeys then JInherited k else JUndefined)"

text \<open>
  \<^verbatim>\<open>x.id\<close> on an arbitrary value: a TypeError on \<^verbatim>\<open>null\<close> and \<^verbatim>\<open>undefined\<close>, the property
  of an object, and \<^verbatim>\<open>undefined\<close> on every other value (no primitive, no array and no
  function has an \<^verbatim>\<open>id\<close>).
\<close>

fun getId :: "jsval \<Rightarrow> error + jsval" where
  "getId JUndefined = Inl TypeError"
| "getId JNull = Inl TypeError"
| "getId (JObj ps) = Inr (getField ps ''id'')"
| "getId v = Inr JUndefined"

text \<open>\<^verbatim>\<open>s.split(',')\<close>: the empty string splits into one empty piece.\<close>

fun jsSplit :: "char \<Rightarrow> string \<Rightarrow> string list" where
  "jsSplit c [] = [[]]"
| "jsSplit c (x # xs) =
     (if x = c then [] # jsSplit c xs
      else (case jsSplit c xs of [] \<Rightarrow> [[x]] | y # ys \<Rightarrow> (x # y) # ys))"

text \<open>
  \<^verbatim>\<open>s.trim()\<close>: white space and line terminators are removed at both ends. Among the code
  units below 256 these are TAB, LF, VT, FF, CR, SP and NBSP.
\<close>

definition isWhiteSpace :: "char \<Rightarrow> bool" where
  "isWhiteSpace c = (c \<in> set [CHR 0x09, CHR 0x0A, CHR 0x0B, CHR 0x0C, CHR 0x0D, CHR 0x20, CHR 0xA0])"

definition trim :: "string \<Rightarrow> string" where
  "trim s = rev (dropWhile isWhiteSpace (rev (dropWhile isWhiteSpace s)))"

text \<open>
  \<^verbatim>\<open>v?.split(',')\<close> on an arbitrary value: \<^verbatim>\<open>undefined\<close> on a nullish value, the pieces of a
  string, and a TypeError on anything else (\<^verbatim>\<open>split\<close> is not a function there).
\<close>

fun optSplit :: "jsval \<Rightarrow> error + string list option" where
  "optSplit JUndefined = Inr None"
| "optSplit JNull = Inr None"
| "optSplit (JStr s) = Inr (Some (jsSplit CHR '','' s))"
| "optSplit v = Inl TypeError"

text \<open>\<^verbatim>\<open>filter.value?.split(',').map((v) => v.trim()) ?? []\<close>\<close>

definition filterValueList :: "jsval \<Rightarrow> error + string list" where
  "filterValueList v =
     (case optSplit v of
        Inl e \<Rightarrow> Inl e
      | Inr None \<Rightarrow> Inr []
      | Inr (Some ps) \<Rightarrow> Inr (map trim ps))"

text \<open>\<^verbatim>\<open>data[field]?.split(',') ?? []\<close>\<close>

definition dataValueList :: "jsval \<Rightarrow> error + string list" where
  "dataValueList v =
     (case optSplit v of
        Inl e \<Rightarrow> Inl e
      | Inr None \<Rightarrow> Inr []
      | Inr (Some ps) \<Rightarrow> Inr ps)"

section \<open>Filters and the condition evaluator\<close>

text \<open>
  The \<^verbatim>\<open>UITypes\<close> enumeration of the SDK, as far as the helpers distinguish its members.
\<close>

datatype uidt =
    Date | DateTime | CreatedTime | LastModifiedTime
  | User | CreatedBy | LastModifiedBy
  | Lookup | LinkToAnotherRecord | Links | Rollup | Formula
  | Attachment | QrCode | Barcode
  | OtherUIType string

text \<open>
  The column a leaf filter resolves to (\<^verbatim>\<open>filter.getColumn(context)\<close>): its title, its type and
  \<^verbatim>\<open>column?.meta?.date_format\<close>.
\<close>

record column =
  title :: string
  uidt :: uidt
  date_format :: jsval

text \<open>
  A filter is a group (\<^verbatim>\<open>is_group\<close>) with its children, fetched or given, or a leaf.
  An operator that is not set is \<open>None\<close>.
\<close>

datatype filter =
    Group (children: "filter list") (logical_op: "string option")
  | Leaf (fcolumn: column) (comparison_op: "string option")
      (comparison_sub_op: "string option") (fvalue: jsval) (logical_op: "string option")

text \<open>
  What \<^verbatim>\<open>dayjs\<close>, the wall clock and the coercions of the language compute is not part of
  the repository: the evaluator takes them as an environment. \<open>'d\<close> is the type of
  \<^verbatim>\<open>dayjs\<close> objects. An operand of a \<^verbatim>\<open>dayjs\<close> comparison is a raw value or such an object;
  the amount of \<^verbatim>\<open>add\<close> is a literal, \<^verbatim>\<open>filterVal\<close> or \<^verbatim>\<open>-filterVal\<close>.
\<close>

datatype 'd operand = Plain jsval | Dayjs 'd

datatype amount = Lit int | Plus jsval | Minus jsval

record 'd js_env =
  dayjs_now :: 'd
  dayjs_date1 :: "'d \<Rightarrow> 'd"
  dayjs_add :: "'d \<Rightarrow> amount \<Rightarrow> string \<Rightarrow> 'd"
  isSame :: "'d operand \<Rightarrow> 'd operand \<Rightarrow> bool"
  isAfter :: "'d operand \<Rightarrow> 'd operand \<Rightarrow> bool"
  isBefore :: "'d operand \<Rightarrow> 'd operand \<Rightarrow> bool"
  isSameOrBefore :: "'d operand \<Rightarrow> 'd operand \<Rightarrow> bool"
  isSameOrAfter :: "'d operand \<Rightarrow> 'd operand \<Rightarrow> bool"
  isBetween :: "'d operand \<Rightarrow> 'd operand \<Rightarrow> 'd operand \<Rightarrow> bool"
  now_format :: "string \<Rightarrow> string"
  isDateMonthFormat :: "jsval \<Rightarrow> bool"
  looseEq :: "jsval \<Rightarrow> jsval \<Rightarrow> bool"
  toNumber :: "jsval \<Rightarrow> jsval"
  numLess :: "jsval \<Rightarrow> jsval \<Rightarrow> bool"
  numLessEq :: "jsval \<Rightarrow> jsval \<Rightarrow> bool"
  lowerIndexOf :: "jsval \<Rightarrow> jsval \<Rightarrow> error + int option"

text \<open>
  \<open>isSame E a b\<close> is \<^verbatim>\<open>dayjs(a).isSame(b, 'day')\<close>, and so on; \<open>isBetween E a b c\<close> is
  \<^verbatim>\<open>dayjs(a).isBetween(b, c, 'day')\<close>; \<open>now_format E f\<close> is
  \<^verbatim>\<open>dayjs(new Date()).format(f).toString()\<close>; \<open>looseEq E a b\<close> is \<^verbatim>\<open>a == b\<close>; \<open>toNumber E a\<close>
  is \<^verbatim>\<open>+a\<close>; \<open>numLess E a b\<close> is \<^verbatim>\<open>+a < +b\<close> and \<open>numLessEq E a b\<close> is \<^verbatim>\<open>+a <= +b\<close>;
  \<open>lowerIndexOf E d v\<close> is \<^verbatim>\<open>d?.toString?.()?.toLowerCase()?.indexOf(v?.toLowerCase())\<close>,
  \<open>None\<close> when the chain yields \<^verbatim>\<open>undefined\<close>.
\<close>

text \<open>
  One filter of the loop either leaves the function by a bare \<^verbatim>\<open>return;\<close> or yields \<^verbatim>\<open>res\<close>.
\<close>

datatype leaf_result = Return | Res jsval

subsection \<open>Date-family leaves\<close>

text \<open>
  The \<^verbatim>\<open>switch (filter.comparison_sub_op)\<close> that resolves \<^verbatim>\<open>filterVal\<close>. \<open>None\<close> is the bare
  \<^verbatim>\<open>return;\<close> of the sub-operators that need a value and find none.
\<close>

definition resolveSubOp ::
  "'d js_env \<Rightarrow> 'd \<Rightarrow> string option \<Rightarrow> jsval \<Rightarrow> 'd operand option" where
  "resolveSubOp E now sub filterVal =
     (if sub = Some ''today'' then Some (Dayjs now)
      else if sub = Some ''tomorrow'' then Some (Dayjs (dayjs_add E now (Lit 1) ''day''))
      else if sub = Some ''yesterday'' then Some (Dayjs (dayjs_add E now (Lit (- 1)) ''day''))
      else if sub = Some ''oneWeekAgo'' then Some (Dayjs (dayjs_add E now (Lit (- 1)) ''week''))
      else if sub = Some ''oneWeekFromNow'' then Some (Dayjs (dayjs_add E now (Lit 1) ''week''))
      else if sub = Some ''oneMonthAgo'' then Some (Dayjs (dayjs_add E now (Lit (- 1)) ''month''))
      else if sub = Some ''oneMonthFromNow'' then Some (Dayjs (dayjs_add E now (Lit 1) ''month''))
      else if sub = Some ''daysAgo'' then
        (if \<not> truthy filterVal then None
         else Some (Dayjs (dayjs_add E now (Minus filterVal) ''day'')))
      else if sub = Some ''daysFromNow'' then
        (if \<not> truthy filterVal then None
         else Some (Dayjs (dayjs_add E now (Plus filterVal) ''day'')))
      else if sub = Some ''exactDate'' then
        (if \<not> truthy filterVal then None else Some (Plain filterVal))
      else if sub = Some ''pastWeek'' then Some (Dayjs (dayjs_add E now (Lit (- 1)) ''week''))
      else if sub = Some ''pastMonth'' then Some (Dayjs (dayjs_add E now (Lit (- 1)) ''month''))
      else if sub = Some ''pastYear'' then Some (Dayjs (dayjs_add E now (Lit (- 1)) ''year''))
      else if sub = Some ''nextWeek'' then Some (Dayjs (dayjs_add E now (Lit 1) ''week''))
      else if sub = Some ''nextMonth'' then Some (Dayjs (dayjs_add E now (Lit 1) ''month''))
      else if sub = Some ''nextYear'' then Some (Dayjs (dayjs_add E now (Lit 1) ''year''))
      else if sub = Some ''pastNumberOfDays'' then
        (if \<not> truthy filterVal then None
         else Some (Dayjs (dayjs_add E now (Minus filterVal) ''day'')))
      else if sub = Some ''nextNumberOfDays'' then
        (if \<not> truthy filterVal then None
         else Some (Dayjs (dayjs_add E now (Plus filterVal) ''day'')))
      else Some (Plain filterVal))"

text \<open>
  The \<^verbatim>\<open>switch (filter.comparison_op)\<close> under \<^verbatim>\<open>if (dataVal)\<close>; \<open>res\<close> is the value \<^verbatim>\<open>res\<close> has
  before it, kept where no case assigns.
\<close>

definition dateCompare ::
  "'d js_env \<Rightarrow> string option \<Rightarrow> column \<Rightarrow> string option \<Rightarrow> string option \<Rightarrow>
     jsval \<Rightarrow> 'd operand \<Rightarrow> jsval \<Rightarrow> jsval" where
  "dateCompare E client col op sub dataVal filterVal res =
     (if op = Some ''eq'' then JBool (isSame E (Plain dataVal) filterVal)
      else if op = Some ''neq'' then JBool (\<not> isSame E (Plain dataVal) filterVal)
      else if op = Some ''gt'' then JBool (isAfter E (Plain dataVal) filterVal)
      else if op = Some ''lt'' then JBool (isBefore E (Plain dataVal) filterVal)
      else if op = Some ''lte'' \<or> op = Some ''le'' then
        JBool (isSameOrBefore E (Plain dataVal) filterVal)
      else if op = Some ''gte'' \<or> op = Some ''ge'' then
        JBool (isSameOrAfter E (Plain dataVal) filterVal)
      else if op = Some ''empty'' \<or> op = Some ''blank'' then
        JBool (dataVal = JStr [] \<or> dataVal = JNull \<or> dataVal = JUndefined)
      else if op = Some ''notempty'' \<or> op = Some ''notblank'' then
        JBool (\<not> (dataVal = JStr [] \<or> dataVal = JNull \<or> dataVal = JUndefined))
      else if op = Some ''isWithin'' then
        (let dateFormat =
               (if client = Some ''mysql2'' then ''YYYY-MM-DD HH:mm:ss''
                else ''YYYY-MM-DD HH:mm:ssZ'');
             now0 = now_format E dateFormat;
             now = (if uidt col = Date then take 10 now0 else now0)
         in if sub = Some ''pastWeek'' \<or> sub = Some ''pastMonth'' \<or> sub = Some ''pastYear''
               \<or> sub = Some ''pastNumberOfDays'' then
              JBool (isBetween E (Plain dataVal) filterVal (Plain (JStr now)))
            else if sub = Some ''nextWeek'' \<or> sub = Some ''nextMonth'' \<or> sub = Some ''nextYear''
               \<or> sub = Some ''nextNumberOfDays'' then
              JBool (isBetween E (Plain dataVal) (Plain (JStr now)) filterVal)
            else res)
      else res)"

text \<open>
  The branch of a date-family column, lines 100 to 230. \<^verbatim>\<open>dataVal\<close> is \<^verbatim>\<open>data[field]\<close>, read
  before the month format resets anything.
\<close>

definition dateLeaf ::
  "'d js_env \<Rightarrow> string option \<Rightarrow> column \<Rightarrow> string option \<Rightarrow> string option \<Rightarrow>
     jsval \<Rightarrow> jsval \<Rightarrow> leaf_result" where
  "dateLeaf E client col op sub filterVal dataVal =
     (let now = (if truthy (date_format col) \<and> isDateMonthFormat E (date_format col)
                 then dayjs_date1 E (dayjs_now E) else dayjs_now E);
          res = (if truthy filterVal then JBool (isSame E (Plain filterVal) (Plain dataVal))
                 else JUndefined)
      in case resolveSubOp E now sub filterVal of
           None \<Rightarrow> Return
         | Some fv \<Rightarrow>
             Res (if truthy dataVal then dateCompare E client col op sub dataVal fv res
                  else res))"

subsection \<open>User leaves\<close>

text \<open>\<^verbatim>\<open>xs.map(f)\<close> with a callback that may throw: the first exception leaves the loop.\<close>

fun mapE :: "('a \<Rightarrow> error + 'b) \<Rightarrow> 'a list \<Rightarrow> error + 'b list" where
  "mapE f [] = Inr []"
| "mapE f (x # xs) =
     (case f x of
        Inl e \<Rightarrow> Inl e
      | Inr y \<Rightarrow> (case mapE f xs of Inl e \<Rightarrow> Inl e | Inr ys \<Rightarrow> Inr (y # ys)))"

text \<open>
  \<^verbatim>\<open>Array.isArray(data[field]) ? data[field].map((user) => user.id)
     : data[field]?.id ? [data[field].id] : []\<close>
\<close>

definition userIds :: "jsval \<Rightarrow> error + jsval list" where
  "userIds d =
     (case d of
        JArr us \<Rightarrow> mapE getId us
      | JUndefined \<Rightarrow> Inr []
      | JNull \<Rightarrow> Inr []
      | _ \<Rightarrow> (case getId d of Inl e \<Rightarrow> Inl e | Inr i \<Rightarrow> Inr (if truthy i then [i] else [])))"

text \<open>
  Lines 246 to 277. \<^verbatim>\<open>filterValues.includes(id)\<close> compares a record id with strings, and
  \<^verbatim>\<open>userIds.includes(id)\<close> a string with the record ids.
\<close>

definition userLeaf :: "string option \<Rightarrow> jsval \<Rightarrow> jsval \<Rightarrow> error + jsval" where
  "userLeaf op filterValue d =
     (case userIds d of
        Inl e \<Rightarrow> Inl e
      | Inr ids \<Rightarrow>
          (case filterValueList filterValue of
             Inl e \<Rightarrow> Inl e
           | Inr filterValues \<Rightarrow>
               Inr (if op = Some ''anyof'' then
                      JBool (list_ex (\<lambda>i. i \<in> set (map JStr filterValues)) ids)
                    else if op = Some ''nanyof'' then
                      JBool (\<not> list_ex (\<lambda>i. i \<in> set (map JStr filterValues)) ids)
                    else if op = Some ''allof'' then
                      JBool (list_all (\<lambda>i. JStr i \<in> set ids) filterValues)
                    else if op = Some ''nallof'' then
                      JBool (\<not> list_all (\<lambda>i. JStr i \<in> set ids) filterValues)
                    else if op = Some ''empty'' \<or> op = Some ''blank'' then
                      JBool (length ids = 0)
                    else if op = Some ''notempty'' \<or> op = Some ''notblank'' then
                      JBool (length ids > 0)
                    else JBool False)))"

subsection \<open>Leaves of every other type\<close>

text \<open>
  \<^verbatim>\<open>(filter.value?.split(',').map((item) => item.trim()) ?? []).every((item) =>
     (data[field]?.split(',') ?? []).includes(item))\<close>, and the same with \<^verbatim>\<open>some\<close>: the
  callback, and with it the split of \<^verbatim>\<open>data[field]\<close>, runs only when there is an item.
\<close>

definition everyItem :: "jsval \<Rightarrow> jsval \<Rightarrow> error + bool" where
  "everyItem filterValue d =
     (case filterValueList filterValue of
        Inl e \<Rightarrow> Inl e
      | Inr [] \<Rightarrow> Inr True
      | Inr items \<Rightarrow>
          (case dataValueList d of
             Inl e \<Rightarrow> Inl e
           | Inr ds \<Rightarrow> Inr (list_all (\<lambda>item. item \<in> set ds) items)))"

definition someItem :: "jsval \<Rightarrow> jsval \<Rightarrow> error + bool" where
  "someItem filterValue d =
     (case filterValueList filterValue of
        Inl e \<Rightarrow> Inl e
      | Inr [] \<Rightarrow> Inr False
      | Inr items \<Rightarrow>
          (case dataValueList d of
             Inl e \<Rightarrow> Inl e
           | Inr ds \<Rightarrow> Inr (list_ex (\<lambda>item. item \<in> set ds) items)))"

definition jsBool :: "bool \<Rightarrow> error + bool \<Rightarrow> error + jsval" where
  "jsBool positive r = (case r of Inl e \<Rightarrow> Inl e | Inr b \<Rightarrow> Inr (JBool (b = positive)))"

text \<open>
  Lines 279 to 361. \<open>val\<close> is \<^verbatim>\<open>data[field]\<close> after the \<^verbatim>\<open>switch (typeof filter.value)\<close>; an
  operator that no case names leaves \<^verbatim>\<open>res\<close> \<^verbatim>\<open>undefined\<close>. \<^verbatim>\<open>+a > +b\<close> is \<^verbatim>\<open>+b < +a\<close>, and
  \<^verbatim>\<open>+a >= +b\<close> is \<^verbatim>\<open>+b <= +a\<close>.
\<close>

definition otherLeaf ::
  "'d js_env \<Rightarrow> string option \<Rightarrow> jsval \<Rightarrow> jsval \<Rightarrow> jsval \<Rightarrow> error + jsval" where
  "otherLeaf E op filterValue d val =
     (if op = Some ''eq'' then Inr (JBool (looseEq E val filterValue))
      else if op = Some ''neq'' then Inr (JBool (\<not> looseEq E val filterValue))
      else if op = Some ''like'' then
        (case lowerIndexOf E d filterValue of
           Inl e \<Rightarrow> Inl e
         | Inr None \<Rightarrow> Inr (JBool False)
         | Inr (Some i) \<Rightarrow> Inr (JBool (i > - 1)))
      else if op = Some ''nlike'' then
        (case lowerIndexOf E d filterValue of
           Inl e \<Rightarrow> Inl e
         | Inr None \<Rightarrow> Inr (JBool False)
         | Inr (Some i) \<Rightarrow> Inr (JBool (i = - 1)))
      else if op = Some ''empty'' \<or> op = Some ''blank'' then
        Inr (JBool (d = JStr [] \<or> d = JNull \<or> d = JUndefined))
      else if op = Some ''notempty'' \<or> op = Some ''notblank'' then
        Inr (JBool (\<not> (d = JStr [] \<or> d = JNull \<or> d = JUndefined)))
      else if op = Some ''checked'' then Inr (JBool (truthy d))
      else if op = Some ''notchecked'' then Inr (JBool (\<not> truthy d))
      else if op = Some ''null'' then Inr (JBool (d = JNull))
      else if op = Some ''notnull'' then Inr (JBool (d \<noteq> JNull))
      else if op = Some ''allof'' then jsBool True (everyItem filterValue d)
      else if op = Some ''anyof'' then jsBool True (someItem filterValue d)
      else if op = Some ''nallof'' then jsBool False (everyItem filterValue d)
      else if op = Some ''nanyof'' then jsBool False (someItem filterValue d)
      else if op = Some ''lt'' then Inr (JBool (numLess E d filterValue))
      else if op = Some ''lte'' \<or> op = Some ''le'' then Inr (JBool (numLessEq E d filterValue))
      else if op = Some ''gt'' then Inr (JBool (numLess E filterValue d))
      else if op = Some ''gte'' \<or> op = Some ''ge'' then Inr (JBool (numLessEq E filterValue d))
      else Inr JUndefined)"

subsection \<open>The loop\<close>

text \<open>The body of the loop for a leaf, lines 86 to 363.\<close>

definition evalLeaf ::
  "'d js_env \<Rightarrow> string option \<Rightarrow> column \<Rightarrow> string option \<Rightarrow> string option \<Rightarrow> jsval \<Rightarrow>
     (string \<times> jsval) list \<Rightarrow> error + leaf_result" where
  "evalLeaf E client col op sub filterValue data =
     (let d = getField data (title col) in
      if uidt col \<in> set [Date, DateTime, CreatedTime, LastModifiedTime]
         \<and> op \<notin> set [Some ''empty'', Some ''blank'', Some ''notempty'', Some ''notblank'']
      then Inr (dateLeaf E client col op sub filterValue d)
      else
        (let val = (case filterValue of
                      JBool b \<Rightarrow> JBool (truthy d)
                    | JNum n \<Rightarrow> toNumber E d
                    | _ \<Rightarrow> d)
         in case (if uidt col \<in> set [User, CreatedBy, LastModifiedBy]
                  then userLeaf op filterValue d
                  else otherLeaf E op filterValue d val) of
              Inl e \<Rightarrow> Inl e
            | Inr res \<Rightarrow> Inr (Res res)))"

text \<open>The \<^verbatim>\<open>switch (filter.logical_op)\<close> that closes the body, lines 366 to 377.\<close>

definition combine :: "string option \<Rightarrow> jsval \<Rightarrow> jsval \<Rightarrow> jsval" where
  "combine lop isValid res =
     (if lop = Some ''or'' then jsOr isValid (jsNot (jsNot res))
      else if lop = Some ''not'' then jsAnd isValid (jsNot res)
      else jsAnd (jsNullish isValid (JBool True)) res)"

text \<open>
  \<^verbatim>\<open>validateCondition\<close>; \<open>loop\<close> is its \<^verbatim>\<open>for\<close> loop with \<^verbatim>\<open>isValid\<close> as accumulator, and
  \<open>evalFilter\<close> the part of the body that computes \<^verbatim>\<open>res\<close>.
\<close>

fun validateCondition ::
      "'d js_env \<Rightarrow> string option \<Rightarrow> filter list \<Rightarrow> (string \<times> jsval) list \<Rightarrow> error + jsval"
  and loop ::
      "'d js_env \<Rightarrow> string option \<Rightarrow> filter list \<Rightarrow> (string \<times> jsval) list \<Rightarrow> jsval \<Rightarrow>
         error + jsval"
  and evalFilter ::
      "'d js_env \<Rightarrow> string option \<Rightarrow> filter \<Rightarrow> (string \<times> jsval) list \<Rightarrow> error + leaf_result"
where
  "validateCondition E client filters data =
     (if length filters = 0 then Inr (JBool True) else loop E client filters data JNull)"
| "loop E client [] data isValid = Inr isValid"
| "loop E client (f # fs) data isValid =
     (case evalFilter E client f data of
        Inl e \<Rightarrow> Inl e
      | Inr Return \<Rightarrow> Inr JUndefined
      | Inr (Res res) \<Rightarrow> loop E client fs data (combine (logical_op f) isValid res))"
| "evalFilter E client (Group cs lop) data =
     (case validateCondition E client cs data of
        Inl e \<Rightarrow> Inl e
      | Inr res \<Rightarrow> Inr (Res res))"
| "evalFilter E client (Leaf col op sub v lop) data = evalLeaf E client col op sub v data"

subsection \<open>The fold of the specification\<close>






section \<open>Webhook dispatch\<close>

subsection \<open>Templating\<close>

text \<open>
  Handlebars is a library: \<open>hb template context\<close> stands for
  \<^verbatim>\<open>Handlebars.compile(template, { noEscape: true })(context)\<close>, the rendered string or the
  exception that compiling or rendering throws.
\<close>

type_synonym handlebars = "string \<Rightarrow> jsval \<Rightarrow> error + string"

text \<open>
  \<^verbatim>\<open>parseBody\<close>, lines 46 to 60. The empty template is falsy and is returned as it is; the
  \<^verbatim>\<open>catch\<close> returns the template.
\<close>

definition parseBody :: "handlebars \<Rightarrow> string \<Rightarrow> jsval \<Rightarrow> error + string" where
  "parseBody hb template data =
     (if template = [] then Inr template
      else (case hb template (JObj [(''data'', data), (''event'', data)]) of
              Inl e \<Rightarrow> Inr template
            | Inr rendered \<Rightarrow> Inr rendered))"

subsection \<open>The payload\<close>

record hook =
  version :: string
  event :: string
  operation :: string
  condition :: bool
  notification_type :: "string option"

record model =
  model_id :: string
  model_title :: string
  table_name :: string

text \<open>
  \<^verbatim>\<open>constructWebHookData\<close>, lines 382 to 414; \<open>uuid\<close> is what \<^verbatim>\<open>uuidv4()\<close> returns in this
  call. Spreading a falsy value adds no key.
\<close>

definition constructWebHookData :: "string \<Rightarrow> hook \<Rightarrow> model \<Rightarrow> jsval \<Rightarrow> jsval \<Rightarrow> jsval" where
  "constructWebHookData uuid hook model prevData newData =
     (if version hook = ''v2'' then
        JObj
          [(''type'', JStr (''records'' @ ''.'' @ event hook @ ''.'' @ operation hook)),
           (''id'', JStr uuid),
           (''data'',
            JObj
              ([(''table_id'', JStr (model_id model)),
                (''table_name'', JStr (model_title model))]
               @ (if truthy prevData then
                    [(''previous_rows'',
                      (case prevData of JArr rows \<Rightarrow> prevData | _ \<Rightarrow> JArr [prevData]))]
                  else [])
               @ (if operation hook \<noteq> ''bulkInsert'' \<and> truthy newData then
                    [(''rows'',
                      (case newData of JArr rows \<Rightarrow> newData | _ \<Rightarrow> JArr [newData]))]
                  else [])
               @ (if operation hook = ''bulkInsert'' then
                    [(''rows_inserted'',
                      (case newData of
                         JArr rows \<Rightarrow> JNum (int (length rows))
                       | _ \<Rightarrow> if truthy newData then JNum 1 else JNum 0))]
                  else [])))]
      else newData)"

subsection \<open>The condition gate\<close>

text \<open>
  \<^verbatim>\<open>newData\<close> is one record or, for a bulk operation, an array of records; \<^verbatim>\<open>prevData\<close> is a
  record or absent.
\<close>

datatype newdata = Single "(string \<times> jsval) list" | Bulk "(string \<times> jsval) list list"

text \<open>
  What \<^verbatim>\<open>invokeWebhook\<close> has decided when it reaches \<^verbatim>\<open>switch (notification?.type)\<close>: it has
  returned without delivering, or it goes on to deliver \<^verbatim>\<open>newData\<close>.
\<close>

datatype gate = Skipped | Proceed newdata

text \<open>The loop over a batch, lines 653 to 680.\<close>

fun filterMatching ::
  "'d js_env \<Rightarrow> string option \<Rightarrow> filter list \<Rightarrow> (string \<times> jsval) list list \<Rightarrow>
     error + (string \<times> jsval) list list" where
  "filterMatching E client filters [] = Inr []"
| "filterMatching E client filters (d # ds) =
     (case validateCondition E client filters d of
        Inl e \<Rightarrow> Inl e
      | Inr v \<Rightarrow>
          (case filterMatching E client filters ds of
             Inl e \<Rightarrow> Inl e
           | Inr filteredData \<Rightarrow> Inr (if truthy v then d # filteredData else filteredData)))"

text \<open>
  \<^verbatim>\<open>invokeWebhook\<close>, lines 642 to 708. \<open>testFilters\<close> is \<open>None\<close> when the caller passes none;
  \<open>storedFilters\<close> is what \<^verbatim>\<open>hook.getFilters(context)\<close> returns, \<open>client\<close> is \<^verbatim>\<open>source?.type\<close>.
  An exception is caught by the \<^verbatim>\<open>catch\<close> of the function, which delivers nothing.
\<close>

definition invokeWebhookGate ::
  "'d js_env \<Rightarrow> hook \<Rightarrow> bool \<Rightarrow> filter list option \<Rightarrow> filter list \<Rightarrow> string option \<Rightarrow>
     (string \<times> jsval) list option \<Rightarrow> newdata \<Rightarrow> error + gate" where
  "invokeWebhookGate E hook testHook testFilters storedFilters client prevData newData =
     (let isBulkOperation = (case newData of Bulk rows \<Rightarrow> True | Single row \<Rightarrow> False) in
      if isBulkOperation \<and> notification_type hook \<noteq> Some ''URL'' then Inr Skipped
      else if condition hook \<and> \<not> testHook then
        (let filters = (case testFilters of Some fs \<Rightarrow> fs | None \<Rightarrow> storedFilters) in
         case newData of
           Bulk rows \<Rightarrow>
             (case filterMatching E client filters rows of
                Inl e \<Rightarrow> Inl e
              | Inr filteredData \<Rightarrow>
                  if length filteredData = 0 then Inr Skipped
                  else Inr (Proceed (Bulk filteredData)))
         | Single row \<Rightarrow>
             (case (case prevData of
                      None \<Rightarrow> Inr False
                    | Some prev \<Rightarrow>
                        if length filters = 0 then Inr False
                        else (case validateCondition E client filters prev of
                                Inl e \<Rightarrow> Inl e
                              | Inr v \<Rightarrow> Inr (truthy v))) of
                Inl e \<Rightarrow> Inl e
              | Inr True \<Rightarrow> Inr Skipped
              | Inr False \<Rightarrow>
                  (case validateCondition E client filters row of
                     Inl e \<Rightarrow> Inl e
                   | Inr v \<Rightarrow> if \<not> truthy v then Inr Skipped else Inr (Proceed (Single row)))))
      else Inr (Proceed newData))"

subsection \<open>The execution time\<close>

text \<open>
  \<^verbatim>\<open>process.hrtime(startTime)\<close> is the elapsed time as a pair of whole seconds and remaining
  nanoseconds. Fractions are rationals here; \<^verbatim>\<open>x.toFixed(3)\<close> prints the integer \<open>n\<close> for
  which \<open>n / 1000\<close> is nearest to \<open>x\<close>, the larger one of two, with three decimals. The
  source rounds the double nearest to the sum, which at a tie of the exact sum (a
  remainder of 500 nanoseconds past a microsecond) can fall to the other side; away
  from ties, and wherever the sum is a double itself, the two agree.
\<close>

definition digit :: "nat \<Rightarrow> char" where
  "digit d = ''0123456789'' ! d"

function showNat :: "nat \<Rightarrow> string" where
  "showNat n = (if n < 10 then [digit n] else showNat (n div 10) @ [digit (n mod 10)])"
  by pat_completeness auto
termination
  by (relation "measure (\<lambda>n. n)") auto

declare showNat.simps [simp del]

definition showThousandths :: "nat \<Rightarrow> string" where
  "showThousandths n =
     showNat (n div 1000) @ ''.''
       @ [digit (n mod 1000 div 100), digit (n mod 1000 div 10 mod 10), digit (n mod 1000 mod 10)]"

definition toFixed3 :: "rat \<Rightarrow> string" where
  "toFixed3 x = showThousandths (nat \<lfloor>x * 1000 + 1 / 2\<rfloor>)"

text \<open>\<^verbatim>\<open>parseHrtimeToMilliSeconds\<close>, lines 968 to 971.\<close>

definition parseHrtimeToMilliSeconds :: "nat \<times> nat \<Rightarrow> string" where
  "parseHrtimeToMilliSeconds hrtime =
     toFixed3 (of_nat (fst hrtime) + of_nat (snd hrtime) / 1000000)"

text \<open>The elapsed time in milliseconds that a pair of seconds and nanoseconds denotes.\<close>

definition elapsedMilliseconds :: "nat \<times> nat \<Rightarrow> rat" where
  "elapsedMilliseconds hrtime = of_nat (fst hrtime) * 1000 + of_nat (snd hrtime) / 1000000"

section \<open>The lookup select query\<close>

subsection \<open>Column metadata\<close>

datatype RelationTypes = HAS_MANY | BELONGS_TO | MANY_TO_MANY | ONE_TO_ONE

text \<open>
  A column with the options \<^verbatim>\<open>getColOptions\<close> resolves to. The metadata that the accessors
  of the source fetch step by step is given as a whole: a lookup column holds its relation
  column and its lookup column, a relation its child and parent columns, the junction
  model with its two columns, and the columns of the related table; a barcode or QR code
  column holds its value column. \<open>meta_bt\<close> is whether \<^verbatim>\<open>meta?.bt\<close> is truthy.
\<close>

datatype Column =
  Column (col_id: string) (column_name: string) (col_uidt: uidt) (pv: bool) (meta_bt: bool)
    (col_model: model) (colOptions: colOptions)
and colOptions =
    LookupColumn Column Column
  | LinkToAnotherRecordColumn RelationTypes Column Column model Column Column "Column list"
  | ValueColumn Column
  | NoOptions

text \<open>
  \<^verbatim>\<open>getDisplayValueOfRefTable\<close>, lines 25 to 34: the primary value column of the related
  table, or its first column. Where the source goes on with \<^verbatim>\<open>undefined\<close> (no options, no
  column), the next property access throws; the model raises there.
\<close>

definition getDisplayValueOfRefTable :: "Column \<Rightarrow> error + Column" where
  "getDisplayValueOfRefTable relationCol =
     (case colOptions relationCol of
        LinkToAnotherRecordColumn t childColumn parentColumn mmModel mmChildCol mmParentCol cols \<Rightarrow>
          (case find pv cols of
             Some col \<Rightarrow> Inr col
           | None \<Rightarrow> (case cols of [] \<Rightarrow> Inl TypeError | col # rest \<Rightarrow> Inr col))
      | _ \<Rightarrow> Inl TypeError)"

text \<open>
  The normalization of the relation type, lines 93 to 99 and again lines 237 to 243.
\<close>

definition normalizeRelationType :: "Column \<Rightarrow> RelationTypes \<Rightarrow> RelationTypes" where
  "normalizeRelationType relationCol t =
     (if t = ONE_TO_ONE then (if meta_bt relationCol then BELONGS_TO else HAS_MANY) else t)"

subsection \<open>Queries\<close>

text \<open>
  What the \<^verbatim>\<open>knex\<close> calls of the function build. \<open>Raw sql bindings\<close> is \<^verbatim>\<open>knex.raw(sql, bindings)\<close>,
  a binding being an identifier, a value or another expression; \<open>Wrap\<close> is \<^verbatim>\<open>.wrap\<close>.
\<close>

datatype raw =
    Raw string "raw list"
  | Ident string
  | Value string
  | Wrap string raw string

datatype select_item =
    SelectAs string raw
  | SelectRaw raw
  | SelectString string

datatype cond =
    WhereRaw string raw
  | WhereRef string string string

datatype join =
    JoinRaw raw string string
  | InnerJoinTable string string string string
  | InnerJoinRaw raw string string string

datatype query =
  QueryBuilder (qfrom: from_clause) (qjoins: "join list") (qwheres: "cond list")
    (qselects: "select_item list")
and from_clause =
    FromRaw raw
  | FromSub query string

definition qjoin :: "join \<Rightarrow> query \<Rightarrow> query" where
  "qjoin j q = QueryBuilder (qfrom q) (qjoins q @ [j]) (qwheres q) (qselects q)"

definition qwhere :: "cond \<Rightarrow> query \<Rightarrow> query" where
  "qwhere c q = QueryBuilder (qfrom q) (qjoins q) (qwheres q @ [c]) (qselects q)"

definition qselect :: "select_item \<Rightarrow> query \<Rightarrow> query" where
  "qselect s q = QueryBuilder (qfrom q) (qjoins q) (qwheres q) (qselects q @ [s])"

subsection \<open>The collaborators\<close>

text \<open>
  The base model the function is called with: the model it is bound to and its dialect
  flags.
\<close>

record base_model =
  bm_model :: model
  isPg :: bool
  isMySQL :: bool
  isSqlite :: bool

text \<open>
  Functions of the repository that are not part of the file: \<open>aliasName E n\<close> is the
  \<open>n\<close>-th name of the alias generator \<^verbatim>\<open>getAlias\<close>; \<open>getTnPath E m tn a\<close> is
  \<^verbatim>\<open>getTnPath(tn, a)\<close> of the base model of \<open>m\<close>; the three builders and \<^verbatim>\<open>getAs\<close> take the
  model of the lookup column, the column and the alias.
\<close>

record lk_env =
  aliasName :: "nat \<Rightarrow> string"
  getTnPath :: "model \<Rightarrow> string \<Rightarrow> string option \<Rightarrow> string"
  genRollupSelectv2 :: "model \<Rightarrow> Column \<Rightarrow> string \<Rightarrow> error + raw"
  formulaQueryBuilderv2 :: "model \<Rightarrow> Column \<Rightarrow> string \<Rightarrow> error + raw"
  selectObject :: "model \<Rightarrow> query \<Rightarrow> Column \<Rightarrow> string \<Rightarrow> error + query"
  getAs :: "Column \<Rightarrow> string"

definition LOOKUP_VAL_SEPARATOR :: string where
  "LOOKUP_VAL_SEPARATOR = ''___''"

subsection \<open>The builder\<close>

text \<open>
  The state of the builder: the query, the flag, the alias the next hop joins onto, and
  the count of aliases drawn.
\<close>

record lk_state =
  selectQb :: query
  isBtLookup :: bool
  prevAlias :: string
  aliasCount :: nat

text \<open>
  The first hop, lines 78 to 202. \<open>alias\<close> is the alias drawn at line 64, \<open>rootAlias\<close> the
  parameter \<^verbatim>\<open>alias\<close> of the function, falsy when empty.
\<close>

definition firstHop ::
  "lk_env \<Rightarrow> base_model \<Rightarrow> string \<Rightarrow> Column \<Rightarrow> string \<Rightarrow> nat \<Rightarrow> error + lk_state" where
  "firstHop E base rootAlias relationCol alias n =
     (case colOptions relationCol of
        LinkToAnotherRecordColumn t childColumn parentColumn mmModel mmChildCol mmParentCol cols \<Rightarrow>
          (let relationType = normalizeRelationType relationCol t;
               childModel = col_model childColumn;
               parentModel = col_model parentColumn
           in if relationType = BELONGS_TO then
                Inr \<lparr> selectQb =
                        QueryBuilder
                          (FromRaw (Raw ''?? as ??''
                             [Ident (getTnPath E parentModel (table_name parentModel) None),
                              Ident alias]))
                          []
                          [WhereRaw (alias @ ''.'' @ column_name parentColumn)
                             (Raw ''??''
                                [Ident ((if rootAlias \<noteq> [] then rootAlias
                                         else getTnPath E (bm_model base) (table_name childModel) None)
                                        @ ''.'' @ column_name childColumn)])]
                          [],
                      isBtLookup = True, prevAlias = alias, aliasCount = n \<rparr>
              else if relationType = HAS_MANY then
                Inr \<lparr> selectQb =
                        QueryBuilder
                          (FromRaw (Raw ''?? as ??''
                             [Ident (getTnPath E parentModel (table_name childModel) None),
                              Ident alias]))
                          []
                          [WhereRaw (alias @ ''.'' @ column_name childColumn)
                             (Raw ''??''
                                [Ident ((if rootAlias \<noteq> [] then rootAlias
                                         else getTnPath E (bm_model base) (table_name parentModel) None)
                                        @ ''.'' @ column_name parentColumn)])]
                          [],
                      isBtLookup = False, prevAlias = alias, aliasCount = n \<rparr>
              else if relationType = MANY_TO_MANY then
                (let mmTableAlias = aliasName E n in
                 Inr \<lparr> selectQb =
                         QueryBuilder
                           (FromRaw (Raw ''?? as ??''
                              [Ident (getTnPath E parentModel (table_name parentModel) None),
                               Ident alias]))
                           [InnerJoinTable
                              (getTnPath E mmModel (table_name mmModel) (Some mmTableAlias))
                              (mmTableAlias @ ''.'' @ column_name mmParentCol) ''=''
                              (alias @ ''.'' @ column_name parentColumn)]
                           [WhereRef (mmTableAlias @ ''.'' @ column_name mmChildCol) ''=''
                              ((if rootAlias \<noteq> [] then rootAlias
                                else getTnPath E (bm_model base) (table_name childModel) None)
                               @ ''.'' @ column_name childColumn)]
                           [],
                       isBtLookup = False, prevAlias = alias, aliasCount = Suc n \<rparr>)
              else Inl TypeError)
      | _ \<Rightarrow> Inl TypeError)"

text \<open>
  The relation column of one pass of the \<^verbatim>\<open>while\<close> loop, lines 225 to 232, and the lookup
  column the pass ends with, lines 345 to 351.
\<close>

definition nestedRelationColumn :: "Column \<Rightarrow> error + Column" where
  "nestedRelationColumn lookupColumn =
     (if col_uidt lookupColumn = Lookup then
        (case colOptions lookupColumn of
           LookupColumn relationCol target \<Rightarrow> Inr relationCol
         | _ \<Rightarrow> Inl TypeError)
      else Inr lookupColumn)"

definition nextLookupColumn :: "Column \<Rightarrow> error + Column" where
  "nextLookupColumn lookupColumn =
     (if col_uidt lookupColumn = Lookup then
        (case colOptions lookupColumn of
           LookupColumn relationCol target \<Rightarrow> Inr target
         | _ \<Rightarrow> Inl TypeError)
      else getDisplayValueOfRefTable lookupColumn)"

text \<open>The joins of one pass, lines 220 to 343. \<open>alias\<close> is the alias of the first hop.\<close>

definition nestedHop ::
  "lk_env \<Rightarrow> base_model \<Rightarrow> string \<Rightarrow> Column \<Rightarrow> lk_state \<Rightarrow> error + lk_state" where
  "nestedHop E base alias lookupColumn st =
     (let nestedAlias = aliasName E (aliasCount st) in
      case nestedRelationColumn lookupColumn of
        Inl e \<Rightarrow> Inl e
      | Inr relationCol \<Rightarrow>
          (case colOptions relationCol of
             LinkToAnotherRecordColumn t childColumn parentColumn mmModel mmChildCol mmParentCol cols \<Rightarrow>
               (let relationType = normalizeRelationType relationCol t;
                    childModel = col_model childColumn;
                    parentModel = col_model parentColumn
                in if relationType = BELONGS_TO then
                     Inr (st\<lparr> selectQb :=
                               qjoin (JoinRaw
                                   (Raw ''?? as ??''
                                      [Ident (getTnPath E parentModel (table_name parentModel) None),
                                       Ident nestedAlias])
                                   (nestedAlias @ ''.'' @ column_name parentColumn)
                                   (prevAlias st @ ''.'' @ column_name childColumn))
                                 (selectQb st),
                             prevAlias := nestedAlias, aliasCount := Suc (aliasCount st) \<rparr>)
                   else if relationType = HAS_MANY then
                     Inr (st\<lparr> selectQb :=
                               qjoin (JoinRaw
                                   (Raw ''?? as ??''
                                      [Ident (getTnPath E childModel (table_name childModel) None),
                                       Ident nestedAlias])
                                   (nestedAlias @ ''.'' @ column_name childColumn)
                                   (prevAlias st @ ''.'' @ column_name parentColumn))
                                 (selectQb st),
                             isBtLookup := False,
                             prevAlias := nestedAlias, aliasCount := Suc (aliasCount st) \<rparr>)
                   else if relationType = MANY_TO_MANY then
                     (let mmTableAlias = aliasName E (Suc (aliasCount st)) in
                      Inr (st\<lparr> selectQb :=
                                qwhere (WhereRef (mmTableAlias @ ''.'' @ column_name mmChildCol) ''=''
                                    ((if alias \<noteq> [] then alias
                                      else getTnPath E (bm_model base) (table_name childModel) None)
                                     @ ''.'' @ column_name childColumn))
                                  (qjoin (InnerJoinRaw
                                      (Raw ''?? as ??''
                                         [Ident (getTnPath E parentModel (table_name parentModel) None),
                                          Ident nestedAlias])
                                      (mmTableAlias @ ''.'' @ column_name mmParentCol) ''=''
                                      (nestedAlias @ ''.'' @ column_name parentColumn))
                                    (qjoin (InnerJoinTable
                                        (getTnPath E mmModel (table_name mmModel) (Some mmTableAlias))
                                        (mmTableAlias @ ''.'' @ column_name mmChildCol) ''=''
                                        (prevAlias st @ ''.'' @ column_name childColumn))
                                      (selectQb st))),
                              isBtLookup := False,
                              prevAlias := nestedAlias,
                              aliasCount := Suc (Suc (aliasCount st)) \<rparr>))
                   else Inl TypeError)
           | _ \<Rightarrow> Inl TypeError))"

text \<open>
  The \<^verbatim>\<open>while\<close> loop, lines 216 to 354. It ends because every pass moves to a column held
  inside the current one.
\<close>

lemma find_size: "find P xs = Some x \<Longrightarrow> size x < Suc (size_list size xs)"
  by (induction xs) (auto split: if_splits)

lemma nextLookupColumn_size: "nextLookupColumn c = Inr c' \<Longrightarrow> size c' < size c"
  by (cases c; cases "colOptions c")
     (auto simp: nextLookupColumn_def getDisplayValueOfRefTable_def
           split: if_splits option.splits list.splits dest: find_size)

function nestedHops ::
  "lk_env \<Rightarrow> base_model \<Rightarrow> string \<Rightarrow> Column \<Rightarrow> lk_state \<Rightarrow> error + Column \<times> lk_state" where
  "nestedHops E base alias lookupColumn st =
     (if col_uidt lookupColumn = Lookup \<or> col_uidt lookupColumn = LinkToAnotherRecord then
        (case nestedHop E base alias lookupColumn st of
           Inl e \<Rightarrow> Inl e
         | Inr st' \<Rightarrow>
             (case nextLookupColumn lookupColumn of
                Inl e \<Rightarrow> Inl e
              | Inr next \<Rightarrow> nestedHops E base alias next st'))
      else Inr (lookupColumn, st))"
  by pat_completeness auto
termination
  by (relation "measure (\<lambda>(E, base, alias, lookupColumn, st). size lookupColumn)")
     (auto dest: nextLookupColumn_size)

declare nestedHops.simps [simp del]

text \<open>The \<^verbatim>\<open>switch (lookupColumn.uidt)\<close> that selects the value, lines 356 to 431.\<close>

definition terminalSelect ::
  "lk_env \<Rightarrow> bool \<Rightarrow> Column \<Rightarrow> lk_state \<Rightarrow> error + lk_state" where
  "terminalSelect E isAggregation lookupColumn st =
     (let model = col_model lookupColumn;
          plain = Inr (st\<lparr> selectQb :=
                     qselect (SelectString (prevAlias st @ ''.'' @ column_name lookupColumn
                                            @ '' as '' @ col_id lookupColumn))
                       (selectQb st) \<rparr>)
      in if col_uidt lookupColumn = Links \<or> col_uidt lookupColumn = Rollup then
           (case genRollupSelectv2 E model lookupColumn (prevAlias st) of
              Inl e \<Rightarrow> Inl e
            | Inr builder \<Rightarrow>
                Inr (st\<lparr> selectQb :=
                          qselect (SelectAs (col_id lookupColumn) (Wrap ''('' builder '')''))
                            (selectQb st) \<rparr>))
         else if col_uidt lookupColumn = Formula then
           (case formulaQueryBuilderv2 E model lookupColumn (prevAlias st) of
              Inl e \<Rightarrow> Inl e
            | Inr builder \<Rightarrow>
                Inr (st\<lparr> selectQb :=
                          qselect (SelectRaw (Raw ''?? as ??'' [builder, Ident (getAs E lookupColumn)]))
                            (selectQb st) \<rparr>))
         else if col_uidt lookupColumn = DateTime \<or> col_uidt lookupColumn = LastModifiedTime
                 \<or> col_uidt lookupColumn = CreatedTime then
           (case selectObject E model (selectQb st) lookupColumn (prevAlias st) of
              Inl e \<Rightarrow> Inl e
            | Inr qb \<Rightarrow> Inr (st\<lparr> selectQb := qb \<rparr>))
         else if col_uidt lookupColumn = Attachment then
           (if \<not> isAggregation then
              Inl (BadRequest ''Group by using attachment column is not supported'')
            else plain)
         else plain)"

text \<open>
  The lookup column after the first hop, lines 203 to 212: the lookup column of the
  options or the display value of the related table, and for a QR code or a barcode the
  column it encodes.
\<close>

definition firstLookupColumn :: "Column \<Rightarrow> error + Column" where
  "firstLookupColumn column =
     (case nextLookupColumn column of
        Inl e \<Rightarrow> Inl e
      | Inr lookupColumn \<Rightarrow>
          if col_uidt lookupColumn = QrCode \<or> col_uidt lookupColumn = Barcode then
            (case colOptions lookupColumn of
               ValueColumn valueColumn \<Rightarrow> Inr valueColumn
             | _ \<Rightarrow> Inl TypeError)
          else Inr lookupColumn)"

text \<open>
  Lines 62 to 431 of \<^verbatim>\<open>generateLookupSelectQuery\<close>: the query before the decision on the
  aggregation, with the lookup column the loop ended at. \<open>n\<close> is the count of aliases
  the generator has drawn before the call.
\<close>

definition buildSelect ::
  "lk_env \<Rightarrow> base_model \<Rightarrow> Column \<Rightarrow> string \<Rightarrow> bool \<Rightarrow> nat \<Rightarrow> error + Column \<times> lk_state" where
  "buildSelect E base column rootAlias isAggregation n =
     (let alias = aliasName E n in
      if col_uidt column \<noteq> Lookup \<and> col_uidt column \<noteq> LinkToAnotherRecord then
        Inl (BadRequest ''Invalid field type'')
      else
        (case nestedRelationColumn column of
           Inl e \<Rightarrow> Inl e
         | Inr relationCol \<Rightarrow>
             (case firstHop E base rootAlias relationCol alias (Suc n) of
                Inl e \<Rightarrow> Inl e
              | Inr st \<Rightarrow>
                  (case firstLookupColumn column of
                     Inl e \<Rightarrow> Inl e
                   | Inr lookupColumn \<Rightarrow>
                       (case nestedHops E base alias lookupColumn st of
                          Inl e \<Rightarrow> Inl e
                        | Inr (terminal, st') \<Rightarrow>
                            (case terminalSelect E isAggregation terminal st' of
                               Inl e \<Rightarrow> Inl e
                             | Inr st'' \<Rightarrow> Inr (terminal, st'')))))))"

text \<open>\<^verbatim>\<open>generateLookupSelectQuery\<close>; the result is the \<^verbatim>\<open>builder\<close> of the pair it returns.\<close>

definition generateLookupSelectQuery ::
  "lk_env \<Rightarrow> base_model \<Rightarrow> Column \<Rightarrow> string \<Rightarrow> bool \<Rightarrow> nat \<Rightarrow> error + query" where
  "generateLookupSelectQuery E base column rootAlias isAggregation n =
     (case buildSelect E base column rootAlias isAggregation n of
        Inl e \<Rightarrow> Inl e
      | Inr (lookupColumn, st) \<Rightarrow>
          if isBtLookup st then Inr (selectQb st)
          else
            (let subQueryAlias = aliasName E (aliasCount st) in
             if isPg base then
               Inr (QueryBuilder (FromSub (selectQb st) subQueryAlias) [] []
                      [SelectRaw (Raw ''json_agg(??)::text'' [Ident (col_id lookupColumn)])])
             else if isMySQL base then
               Inr (QueryBuilder (FromSub (selectQb st) subQueryAlias) [] []
                      [SelectRaw
                         (Raw ''cast(JSON_ARRAYAGG(??) as NCHAR)'' [Ident (col_id lookupColumn)])])
             else if isSqlite base then
               Inr (QueryBuilder (FromSub (selectQb st) subQueryAlias) [] []
                      [SelectRaw
                         (Raw ''group_concat(??, ?)''
                            [Ident (col_id lookupColumn), Value LOOKUP_VAL_SEPARATOR])])
             else Inl (NotImplemented ''This operation on Lookup/LTAR for this database'')))"

subsection \<open>The hops of a lookup chain\<close>

text \<open>
  The kind of a hop in the words of the specification: a one-to-one relation counts as
  belongs-to when the owning column carries the marker \<^verbatim>\<open>meta.bt\<close>, and as has-many when
  it does not; every other relation is of its own kind.
\<close>

definition hopKind :: "Column \<Rightarrow> RelationTypes \<Rightarrow> RelationTypes" where
  "hopKind relationCol t =
     (case t of
        ONE_TO_ONE \<Rightarrow> (if meta_bt relationCol then BELONGS_TO else HAS_MANY)
      | HAS_MANY \<Rightarrow> HAS_MANY
      | BELONGS_TO \<Rightarrow> BELONGS_TO
      | MANY_TO_MANY \<Rightarrow> MANY_TO_MANY)"

text \<open>
  The kind of the hop a lookup or relation column makes; \<open>None\<close> where the metadata holds
  no relation.
\<close>

definition hopType :: "Column \<Rightarrow> RelationTypes option" where
  "hopType c =
     (case nestedRelationColumn c of
        Inl e \<Rightarrow> None
      | Inr relationCol \<Rightarrow>
          (case colOptions relationCol of
             LinkToAnotherRecordColumn t childColumn parentColumn mmModel mmChildCol mmParentCol cols \<Rightarrow>
               Some (hopKind relationCol t)
           | _ \<Rightarrow> None))"

text \<open>The hops from a column on, while it is a lookup or a relation column.\<close>

function hopsFrom :: "Column \<Rightarrow> RelationTypes list" where
  "hopsFrom c =
     (if col_uidt c = Lookup \<or> col_uidt c = LinkToAnotherRecord then
        (case hopType c of
           None \<Rightarrow> []
         | Some t \<Rightarrow> t # (case nextLookupColumn c of Inl e \<Rightarrow> [] | Inr next \<Rightarrow> hopsFrom next))
      else [])"
  by pat_completeness auto
termination
  by (relation "measure size") (auto dest: nextLookupColumn_size)

declare hopsFrom.simps [simp del]

text \<open>The hops of the chain of a lookup or relation column: the first hop and those after it.\<close>

definition chainHops :: "Column \<Rightarrow> RelationTypes list" where
  "chainHops column =
     (case hopType column of
        None \<Rightarrow> []
      | Some t \<Rightarrow>
          t # (case firstLookupColumn column of Inl e \<Rightarrow> [] | Inr lookupColumn \<Rightarrow> hopsFrom lookupColumn))"

section \<open>Example inputs\<close>

text \<open>
  An environment for the examples: \<^verbatim>\<open>==\<close> on two strings is equality, and the clock and
  the date arithmetic are fixed.
\<close>

definition exampleEnv :: "unit js_env" where
  "exampleEnv =
     \<lparr> dayjs_now = (), dayjs_date1 = (\<lambda>d. d), dayjs_add = (\<lambda>d a u. d),
       isSame = (\<lambda>a b. a = b), isAfter = (\<lambda>a b. False), isBefore = (\<lambda>a b. False),
       isSameOrBefore = (\<lambda>a b. a = b), isSameOrAfter = (\<lambda>a b. a = b),
       isBetween = (\<lambda>a b c. False), now_format = (\<lambda>f. f),
       isDateMonthFormat = (\<lambda>f. False), looseEq = (\<lambda>a b. a = b), toNumber = (\<lambda>a. a),
       numLess = (\<lambda>a b. False), numLessEq = (\<lambda>a b. a = b),
       lowerIndexOf = (\<lambda>d v. Inr None) \<rparr>"

definition nameColumn :: column where
  "nameColumn = \<lparr> title = ''Name'', uidt = OtherUIType ''SingleLineText'', date_format = JUndefined \<rparr>"

definition dueColumn :: column where
  "dueColumn = \<lparr> title = ''Due'', uidt = Date, date_format = JUndefined \<rparr>"

definition ownerColumn :: column where
  "ownerColumn = \<lparr> title = ''Owner'', uidt = User, date_format = JUndefined \<rparr>"

definition nameIs :: "string \<Rightarrow> string option \<Rightarrow> filter" where
  "nameIs s lop = Leaf nameColumn (Some ''eq'') None (JStr s) lop"

definition annRecord :: "(string \<times> jsval) list" where
  "annRecord =
     [(''Name'', JStr ''Ann''),
      (''Owner'', JArr [JObj [(''id'', JStr ''u1'')], JObj [(''id'', JStr ''u2'')]])]"



text \<open>
  A date leaf with the sub-operator \<^verbatim>\<open>daysAgo\<close> and no value, followed by a sibling that
  matches and is combined by \<^verbatim>\<open>or\<close>.
\<close>

definition daysAgoLeaf :: "string option \<Rightarrow> filter" where
  "daysAgoLeaf op = Leaf dueColumn op (Some ''daysAgo'') JUndefined None"


text \<open>
  A template engine that agrees with Handlebars on the two templates of the example: it
  renders \<^verbatim>\<open>Hello {{data.name}}\<close> and rejects the unbalanced \<^verbatim>\<open>Hello {{data.name\<close>.
\<close>

definition exampleHandlebars :: handlebars where
  "exampleHandlebars template context =
     (if template = ''Hello {{data.name}}'' then
        (case context of
           JObj ps \<Rightarrow>
             (case getField ps ''data'' of
                JObj d \<Rightarrow>
                  (case getField d ''name'' of
                     JStr s \<Rightarrow> Inr (''Hello '' @ s)
                   | _ \<Rightarrow> Inr ''Hello '')
              | _ \<Rightarrow> Inr ''Hello '')
         | _ \<Rightarrow> Inr ''Hello '')
      else if template = ''Hello {{data.name'' then Inl (ExternalError ''Parse error'')
      else Inr template)"

text \<open>A v2 URL hook for bulk inserts, gated on its filters.\<close>

definition urlHook :: hook where
  "urlHook =
     \<lparr> version = ''v2'', event = ''after'', operation = ''bulkInsert'', condition = True,
       notification_type = Some ''URL'' \<rparr>"

definition tasksModel :: model where
  "tasksModel = \<lparr> model_id = ''md_1'', model_title = ''Tasks'', table_name = ''tasks'' \<rparr>"

definition bobRecord :: "(string \<times> jsval) list" where
  "bobRecord = [(''Name'', JStr ''Bob'')]"

text \<open>
  Metadata for the lookup examples: tasks belong to projects, projects have many tasks,
  and subtasks belong to tasks.
\<close>

definition exampleLkEnv :: lk_env where
  "exampleLkEnv =
     \<lparr> aliasName = (\<lambda>n. ''__lk_slt_'' @ showNat n),
       getTnPath = (\<lambda>m tn a. case a of None \<Rightarrow> tn | Some al \<Rightarrow> tn @ '' as '' @ al),
       genRollupSelectv2 = (\<lambda>m c a. Inl (ExternalError ''rollup'')),
       formulaQueryBuilderv2 = (\<lambda>m c a. Inl (ExternalError ''formula'')),
       selectObject = (\<lambda>m q c a. Inr q),
       getAs = col_id \<rparr>"

definition projectsModel :: model where
  "projectsModel = \<lparr> model_id = ''md_2'', model_title = ''Projects'', table_name = ''projects'' \<rparr>"

definition subtasksModel :: model where
  "subtasksModel = \<lparr> model_id = ''md_3'', model_title = ''Subtasks'', table_name = ''subtasks'' \<rparr>"

definition plainColumn :: "string \<Rightarrow> string \<Rightarrow> bool \<Rightarrow> model \<Rightarrow> Column" where
  "plainColumn i name isPv m = Column i name (OtherUIType ''SingleLineText'') isPv False m NoOptions"

definition relationColumn :: "string \<Rightarrow> model \<Rightarrow> RelationTypes \<Rightarrow> Column \<Rightarrow> Column \<Rightarrow> Column list \<Rightarrow> Column"
  where
  "relationColumn i m t child parent cols =
     Column i [] LinkToAnotherRecord False False m
       (LinkToAnotherRecordColumn t child parent m child parent cols)"

definition lookupOf :: "string \<Rightarrow> model \<Rightarrow> Column \<Rightarrow> Column \<Rightarrow> Column" where
  "lookupOf i m relationCol target = Column i [] Lookup False False m (LookupColumn relationCol target)"

definition projectTitle :: Column where
  "projectTitle = plainColumn ''c_ptitle'' ''title'' True projectsModel"

definition taskTitle :: Column where
  "taskTitle = plainColumn ''c_ttitle'' ''title'' True tasksModel"

text \<open>Task to project, belongs-to; project to tasks, has-many; subtask to task, belongs-to.\<close>

definition taskProject :: Column where
  "taskProject =
     relationColumn ''c_tproj'' tasksModel BELONGS_TO
       (plainColumn ''c_tpid'' ''project_id'' False tasksModel)
       (plainColumn ''c_pid'' ''id'' False projectsModel)
       [plainColumn ''c_pid'' ''id'' False projectsModel, projectTitle]"

definition projectTasks :: Column where
  "projectTasks =
     relationColumn ''c_ptasks'' projectsModel HAS_MANY
       (plainColumn ''c_tpid'' ''project_id'' False tasksModel)
       (plainColumn ''c_pid'' ''id'' False projectsModel)
       [plainColumn ''c_tid'' ''id'' False tasksModel, taskTitle]"

definition subtaskTask :: Column where
  "subtaskTask =
     relationColumn ''c_stask'' subtasksModel BELONGS_TO
       (plainColumn ''c_stid'' ''task_id'' False subtasksModel)
       (plainColumn ''c_tid'' ''id'' False tasksModel)
       [plainColumn ''c_tid'' ''id'' False tasksModel, taskTitle]"

text \<open>
  The project title of a task; the project title of the task of a subtask (two belongs-to
  hops); the task titles of a project (one has-many hop); and the project titles of the
  tasks of a project (a has-many hop, then a belongs-to hop).
\<close>

definition taskProjectTitle :: Column where
  "taskProjectTitle = lookupOf ''c_lk1'' tasksModel taskProject projectTitle"

definition subtaskProjectTitle :: Column where
  "subtaskProjectTitle = lookupOf ''c_lk2'' subtasksModel subtaskTask taskProjectTitle"

definition projectTaskTitles :: Column where
  "projectTaskTitles = lookupOf ''c_lk3'' projectsModel projectTasks taskTitle"

definition projectTaskProjectTitles :: Column where
  "projectTaskProjectTitles = lookupOf ''c_lk4'' projectsModel projectTasks taskProjectTitle"

text \<open>
  A one-to-one relation from a project to its kickoff task, once owned by a column that
  carries the marker \<^verbatim>\<open>meta.bt\<close> and once by one that does not, with the lookup of the task
  title over each.
\<close>

definition oneToOneColumn :: "string \<Rightarrow> bool \<Rightarrow> Column" where
  "oneToOneColumn i bt =
     Column i [] LinkToAnotherRecord False bt projectsModel
       (LinkToAnotherRecordColumn ONE_TO_ONE
          (plainColumn ''c_pkick'' ''kickoff_id'' False projectsModel)
          (plainColumn ''c_tid'' ''id'' False tasksModel)
          projectsModel
          (plainColumn ''c_pkick'' ''kickoff_id'' False projectsModel)
          (plainColumn ''c_tid'' ''id'' False tasksModel)
          [plainColumn ''c_tid'' ''id'' False tasksModel, taskTitle])"

definition kickoffTitleOwning :: Column where
  "kickoffTitleOwning = lookupOf ''c_lk5'' projectsModel (oneToOneColumn ''c_oo1'' True) taskTitle"

definition kickoffTitleOwned :: Column where
  "kickoffTitleOwned = lookupOf ''c_lk6'' projectsModel (oneToOneColumn ''c_oo2'' False) taskTitle"

text \<open>
  The queries the builder is expected to produce for these lookups when it is called with
  the root alias \<^verbatim>\<open>t\<close> and a fresh alias generator: the query of the two belongs-to hops
  from a subtask, the join query of the has-many and belongs-to hops from a project, and
  the queries of the one-to-one hop read as belongs-to and as has-many.
\<close>

definition subtaskProjectTitleQuery :: query where
  "subtaskProjectTitleQuery =
     QueryBuilder
       (FromRaw (Raw ''?? as ??'' [Ident ''tasks'', Ident ''__lk_slt_0'']))
       [JoinRaw (Raw ''?? as ??'' [Ident ''projects'', Ident ''__lk_slt_1''])
          ''__lk_slt_1.id'' ''__lk_slt_0.project_id'']
       [WhereRaw ''__lk_slt_0.id'' (Raw ''??'' [Ident ''t.task_id''])]
       [SelectString ''__lk_slt_1.title as c_ptitle'']"

definition projectTaskProjectTitlesJoin :: query where
  "projectTaskProjectTitlesJoin =
     QueryBuilder
       (FromRaw (Raw ''?? as ??'' [Ident ''tasks'', Ident ''__lk_slt_0'']))
       [JoinRaw (Raw ''?? as ??'' [Ident ''projects'', Ident ''__lk_slt_1''])
          ''__lk_slt_1.id'' ''__lk_slt_0.project_id'']
       [WhereRaw ''__lk_slt_0.project_id'' (Raw ''??'' [Ident ''t.id''])]
       [SelectString ''__lk_slt_1.title as c_ptitle'']"

definition kickoffOwningQuery :: query where
  "kickoffOwningQuery =
     QueryBuilder
       (FromRaw (Raw ''?? as ??'' [Ident ''tasks'', Ident ''__lk_slt_0'']))
       []
       [WhereRaw ''__lk_slt_0.id'' (Raw ''??'' [Ident ''t.kickoff_id''])]
       [SelectString ''__lk_slt_0.title as c_ttitle'']"

definition kickoffOwnedJoin :: query where
  "kickoffOwnedJoin =
     QueryBuilder
       (FromRaw (Raw ''?? as ??'' [Ident ''projects'', Ident ''__lk_slt_0'']))
       []
       [WhereRaw ''__lk_slt_0.kickoff_id'' (Raw ''??'' [Ident ''t.id''])]
       [SelectString ''__lk_slt_0.title as c_ttitle'']"

definition baseOf :: "model \<Rightarrow> bool \<Rightarrow> bool \<Rightarrow> bool \<Rightarrow> base_model" where
  "baseOf m pg mysql sqlite = \<lparr> bm_model = m, isPg = pg, isMySQL = mysql, isSqlite = sqlite \<rparr>"

section \<open>Properties of the condition evaluator\<close>

text \<open>
  C10. Applied to an empty filter sequence, \<^verbatim>\<open>validateCondition\<close> returns \<^verbatim>\<open>true\<close>, whatever
  the environment, the dialect and the record; so does a group without children, whose
  \<^verbatim>\<open>res\<close> is then \<^verbatim>\<open>true\<close>. The loop alone, run on no filter, would return its initial
  accumulator \<^verbatim>\<open>null\<close>.
\<close>

theorem validateCondition_empty:
  "validateCondition E client [] data = Inr (JBool True)
   \<and> evalFilter E client (Group [] lop) data = Inr (Res (JBool True))
   \<and> loop E client [] data JNull = Inr JNull"
  by simp













lemma loop_return:
  "evalFilter E client l data = Inr Return \<Longrightarrow>
   loop E client pre data acc = Inr w \<Longrightarrow>
   loop E client (pre @ l # post) data acc = Inr JUndefined"
proof (induction pre arbitrary: acc)
  case Nil
  then show ?case by simp
next
  case (Cons f fs)
  then show ?case
    by (auto split: sum.splits leaf_result.splits)
qed

lemma validateCondition_return:
  assumes "evalFilter E client l data = Inr Return"
    and "validateCondition E client pre data = Inr w"
  shows "validateCondition E client (pre @ l # post) data = Inr JUndefined"
proof (cases pre)
  case Nil
  then show ?thesis using assms(1) by simp
next
  case (Cons f fs)
  then have "loop E client pre data JNull = Inr w" using assms(2) by simp
  from loop_return[OF assms(1) this] show ?thesis by simp
qed

lemma daysAgo_return:
  assumes "uidt col \<in> {Date, DateTime, CreatedTime, LastModifiedTime}"
    and "op \<notin> {Some ''empty'', Some ''blank'', Some ''notempty'', Some ''notblank''}"
    and "\<not> truthy v"
  shows "evalFilter E client (Leaf col op (Some ''daysAgo'') v lop) data = Inr Return"
  using assms by (auto simp: evalLeaf_def dateLeaf_def resolveSubOp_def Let_def)

text \<open>
  C9 (amended). A leaf on a date-family column (Date, DateTime, CreatedTime,
  LastModifiedTime) whose comparison operator is none of \<^verbatim>\<open>empty\<close>, \<^verbatim>\<open>blank\<close>, \<^verbatim>\<open>notempty\<close>,
  \<^verbatim>\<open>notblank\<close>, with the sub-operator \<^verbatim>\<open>daysAgo\<close> and no filter value (any falsy value),
  makes \<^verbatim>\<open>validateCondition\<close> return \<^verbatim>\<open>undefined\<close>, which is not \<^verbatim>\<open>false\<close>, and raises
  nothing: alone, and after any siblings that raise nothing themselves.
\<close>

theorem daysAgo_without_value:
  assumes "uidt col \<in> {Date, DateTime, CreatedTime, LastModifiedTime}"
    and "op \<notin> {Some ''empty'', Some ''blank'', Some ''notempty'', Some ''notblank''}"
    and "\<not> truthy v"
    and "validateCondition E client pre data = Inr w"
  shows "validateCondition E client (pre @ Leaf col op (Some ''daysAgo'') v lop # post) data
           = Inr JUndefined
         \<and> validateCondition E client [Leaf col op (Some ''daysAgo'') v lop] data
           = Inr JUndefined
         \<and> Inr JUndefined \<noteq> (Inr (JBool False) :: error + jsval)"
proof -
  have r: "evalFilter E client (Leaf col op (Some ''daysAgo'') v lop) data = Inr Return"
    using assms(1-3) by (rule daysAgo_return)
  have a: "validateCondition E client (pre @ Leaf col op (Some ''daysAgo'') v lop # post) data
           = Inr JUndefined"
    using r assms(4) by (rule validateCondition_return)
  have b: "validateCondition E client [Leaf col op (Some ''daysAgo'') v lop] data = Inr JUndefined"
    using r by simp
  show ?thesis using a b by simp
qed

text \<open>The theorem at a \<^verbatim>\<open>daysAgo\<close> leaf with the value \<^verbatim>\<open>null\<close>, between two other leaves.\<close>

theorem daysAgo_without_value_witness:
  "validateCondition exampleEnv (Some ''pg'')
     ([nameIs ''Ann'' None] @ Leaf dueColumn (Some ''eq'') (Some ''daysAgo'') JNull (Some ''or'')
        # [nameIs ''Ann'' (Some ''or'')]) annRecord = Inr JUndefined
   \<and> validateCondition exampleEnv (Some ''pg'')
        [Leaf dueColumn (Some ''eq'') (Some ''daysAgo'') JNull (Some ''or'')] annRecord
      = Inr JUndefined
   \<and> Inr JUndefined \<noteq> (Inr (JBool False) :: error + jsval)"
proof -
  have 1: "uidt dueColumn \<in> {Date, DateTime, CreatedTime, LastModifiedTime}"
    by (simp add: dueColumn_def)
  have 2: "Some ''eq'' \<notin> {Some ''empty'', Some ''blank'', Some ''notempty'', Some ''notblank''}"
    by simp
  have 3: "\<not> truthy JNull" by simp
  have 4: "validateCondition exampleEnv (Some ''pg'') [nameIs ''Ann'' None] annRecord
             = Inr (JBool True)"
    by (simp add: exampleEnv_def nameIs_def nameColumn_def annRecord_def evalLeaf_def
        otherLeaf_def getField_def objectPrototypeKeys_def combine_def jsAnd_def jsNullish_def)
  show ?thesis by (rule daysAgo_without_value[OF 1 2 3 4])
qed

text \<open>
  C9 as stated fails for the comparison operator \<^verbatim>\<open>blank\<close>: the leaf is then not handled
  by the date branch, and on a record without the field the call returns \<^verbatim>\<open>true\<close>.
\<close>

theorem daysAgo_without_value_counterexample:
  "validateCondition exampleEnv None [daysAgoLeaf (Some ''blank'')] annRecord = Inr (JBool True)
   \<and> validateCondition exampleEnv None [daysAgoLeaf (Some ''blank'')] annRecord \<noteq> Inr JUndefined"
  by (simp add: exampleEnv_def daysAgoLeaf_def dueColumn_def annRecord_def evalLeaf_def
      otherLeaf_def getField_def objectPrototypeKeys_def combine_def jsAnd_def jsNullish_def)


lemma userIds_shapes:
  "userIds (JArr (map JObj us)) = Inr (map (\<lambda>u. getField u ''id'') us)"
  "userIds (JObj u) = Inr (if truthy (getField u ''id'') then [getField u ''id''] else [])"
  "userIds JUndefined = Inr []" "userIds JNull = Inr []"
proof -
  show "userIds (JArr (map JObj us)) = Inr (map (\<lambda>u. getField u ''id'') us)"
    by (induction us) (simp_all add: userIds_def)
qed (simp_all add: userIds_def)

lemma filterValueList_shapes:
  "filterValueList (JStr s) = Inr (map trim (jsSplit CHR '','' s))"
  "filterValueList JUndefined = Inr []" "filterValueList JNull = Inr []"
  by (simp_all add: filterValueList_def)

lemma userLeaf_result:
  assumes "userIds d = Inr ids" and "filterValueList v = Inr fvs"
  shows "userLeaf op v d =
     Inr (JBool (
       if op = Some ''anyof'' then set ids \<inter> JStr ` set fvs \<noteq> {}
       else if op = Some ''nanyof'' then set ids \<inter> JStr ` set fvs = {}
       else if op = Some ''allof'' then JStr ` set fvs \<subseteq> set ids
       else if op = Some ''nallof'' then \<not> JStr ` set fvs \<subseteq> set ids
       else if op = Some ''empty'' \<or> op = Some ''blank'' then ids = []
       else if op = Some ''notempty'' \<or> op = Some ''notblank'' then ids \<noteq> []
       else False))"
proof -
  have any: "list_ex (\<lambda>i. i \<in> set (map JStr fvs)) ids = (set ids \<inter> JStr ` set fvs \<noteq> {})"
    by (auto simp: list_ex_iff)
  have all: "list_all (\<lambda>i. JStr i \<in> set ids) fvs = (JStr ` set fvs \<subseteq> set ids)"
    by (auto simp: list_all_iff)
  show ?thesis
    using any all by (simp add: userLeaf_def assms)
qed

lemma mapE_getId_total:
  "JNull \<notin> set us \<Longrightarrow> JUndefined \<notin> set us \<Longrightarrow> \<exists>ids. mapE getId us = Inr ids"
proof (induction us)
  case Nil
  then show ?case by simp
next
  case (Cons u us)
  then obtain ids where "mapE getId us = Inr ids" by auto
  moreover have "\<exists>i. getId u = Inr i" using Cons.prems by (cases u) auto
  ultimately show ?case by auto
qed

lemma userIds_total:
  assumes "\<forall>us. d = JArr us \<longrightarrow> JNull \<notin> set us \<and> JUndefined \<notin> set us"
  shows "\<exists>ids. userIds d = Inr ids"
proof (cases d)
  case (JArr us)
  then show ?thesis using assms mapE_getId_total[of us] by (simp add: userIds_def)
qed (simp_all add: userIds_def)

lemma filterValueList_total:
  assumes "v = JUndefined \<or> v = JNull \<or> (\<exists>s. v = JStr s)"
  shows "\<exists>fvs. filterValueList v = Inr fvs"
  using assms by (auto simp: filterValueList_def)

lemma dropWhile_all: "list_all P xs \<Longrightarrow> dropWhile P (xs @ ys) = dropWhile P ys"
  by (induction xs) simp_all

lemma trim_core:
  assumes "list_all isWhiteSpace a" and "list_all isWhiteSpace b"
    and "c = [] \<or> (\<not> isWhiteSpace (hd c) \<and> \<not> isWhiteSpace (last c))"
  shows "trim (a @ c @ b) = c"
proof (cases "c = []")
  case True
  have d: "dropWhile isWhiteSpace (a @ [] @ b) = []"
    using assms(1,2) by (auto simp: list_all_iff)
  show ?thesis unfolding True trim_def d by simp
next
  case False
  then have h: "\<not> isWhiteSpace (hd c)" and l: "\<not> isWhiteSpace (last c)"
    using assms(3) by auto
  have 1: "dropWhile isWhiteSpace (a @ c @ b) = c @ b"
    using False h by (cases c) (simp_all add: dropWhile_all[OF assms(1)])
  have rb: "list_all isWhiteSpace (rev b)" using assms(2) by (simp add: list_all_iff)
  have 2: "dropWhile isWhiteSpace (rev b @ rev c) = rev c"
    using False l by (cases "rev c") (simp_all add: dropWhile_all[OF rb] last_rev hd_rev)
  show ?thesis by (simp add: trim_def 1 2)
qed

lemma jsSplit_piece:
  "c \<notin> set p \<Longrightarrow> jsSplit c (p @ c # rest) = p # jsSplit c rest"
  by (induction p) auto

lemma jsSplit_last: "c \<notin> set p \<Longrightarrow> jsSplit c p = [p]"
  by (induction p) auto

text \<open>
  C6. Take a leaf on a User, CreatedBy or LastModifiedBy column whose filter value is a
  string or absent, and a record whose value is not an array with a \<^verbatim>\<open>null\<close> or
  \<^verbatim>\<open>undefined\<close> element. The record ids are the \<^verbatim>\<open>id\<close>s of the elements of an array, or the
  one truthy \<^verbatim>\<open>id\<close> of a single user object, or none; the filter ids are the trimmed
  pieces of the filter value split at commas (none when the value is absent): a piece
  ends at each comma, and trimming a piece removes exactly the white space around its
  core. With these,
  \<^verbatim>\<open>anyof\<close> is true iff some record id is a filter id, \<^verbatim>\<open>nanyof\<close> is its negation, \<^verbatim>\<open>allof\<close>
  is true iff every filter id is a record id, \<^verbatim>\<open>nallof\<close> is its negation, \<^verbatim>\<open>empty\<close> and
  \<^verbatim>\<open>blank\<close> hold iff there is no record id, \<^verbatim>\<open>notempty\<close> and \<^verbatim>\<open>notblank\<close> iff there is
  one, and any other operator gives \<^verbatim>\<open>false\<close>; no case raises.
\<close>

theorem user_filter:
  assumes "uidt col \<in> {User, CreatedBy, LastModifiedBy}"
    and "v = JUndefined \<or> v = JNull \<or> (\<exists>s. v = JStr s)"
    and "\<forall>us. getField data (title col) = JArr us \<longrightarrow> JNull \<notin> set us \<and> JUndefined \<notin> set us"
  shows "(\<exists>ids fvs.
       userIds (getField data (title col)) = Inr ids \<and> filterValueList v = Inr fvs
       \<and> evalFilter E client (Leaf col op sub v lop) data =
         Inr (Res (JBool (
           if op = Some ''anyof'' then set ids \<inter> JStr ` set fvs \<noteq> {}
           else if op = Some ''nanyof'' then set ids \<inter> JStr ` set fvs = {}
           else if op = Some ''allof'' then JStr ` set fvs \<subseteq> set ids
           else if op = Some ''nallof'' then \<not> JStr ` set fvs \<subseteq> set ids
           else if op = Some ''empty'' \<or> op = Some ''blank'' then ids = []
           else if op = Some ''notempty'' \<or> op = Some ''notblank'' then ids \<noteq> []
           else False)))
       \<and> validateCondition E client [Leaf col op sub v None] data =
         Inr (JBool (
           if op = Some ''anyof'' then set ids \<inter> JStr ` set fvs \<noteq> {}
           else if op = Some ''nanyof'' then set ids \<inter> JStr ` set fvs = {}
           else if op = Some ''allof'' then JStr ` set fvs \<subseteq> set ids
           else if op = Some ''nallof'' then \<not> JStr ` set fvs \<subseteq> set ids
           else if op = Some ''empty'' \<or> op = Some ''blank'' then ids = []
           else if op = Some ''notempty'' \<or> op = Some ''notblank'' then ids \<noteq> []
           else False)))
   \<and> userIds (JArr (map JObj us)) = Inr (map (\<lambda>u. getField u ''id'') us)
   \<and> userIds (JObj u) = Inr (if truthy (getField u ''id'') then [getField u ''id''] else [])
   \<and> userIds JUndefined = Inr [] \<and> userIds JNull = Inr []
   \<and> filterValueList (JStr s) = Inr (map trim (jsSplit CHR '','' s))
   \<and> filterValueList JUndefined = Inr [] \<and> filterValueList JNull = Inr []
   \<and> (CHR '','' \<notin> set p \<longrightarrow>
        jsSplit CHR '','' (p @ CHR '','' # rest) = p # jsSplit CHR '','' rest
        \<and> jsSplit CHR '','' p = [p])
   \<and> (list_all isWhiteSpace a \<and> list_all isWhiteSpace b
        \<and> (c = [] \<or> (\<not> isWhiteSpace (hd c) \<and> \<not> isWhiteSpace (last c))) \<longrightarrow>
        trim (a @ c @ b) = c)"
proof -
  have sp: "CHR '','' \<notin> set p \<longrightarrow>
        jsSplit CHR '','' (p @ CHR '','' # rest) = p # jsSplit CHR '','' rest
        \<and> jsSplit CHR '','' p = [p]"
    using jsSplit_piece jsSplit_last by blast
  have tr: "list_all isWhiteSpace a \<and> list_all isWhiteSpace b
        \<and> (c = [] \<or> (\<not> isWhiteSpace (hd c) \<and> \<not> isWhiteSpace (last c))) \<longrightarrow>
        trim (a @ c @ b) = c"
    using trim_core by blast
  obtain ids where ids: "userIds (getField data (title col)) = Inr ids"
    using userIds_total[OF assms(3)] by blast
  obtain fvs where fvs: "filterValueList v = Inr fvs"
    using filterValueList_total[OF assms(2)] by blast
  let ?b = "if op = Some ''anyof'' then set ids \<inter> JStr ` set fvs \<noteq> {}
       else if op = Some ''nanyof'' then set ids \<inter> JStr ` set fvs = {}
       else if op = Some ''allof'' then JStr ` set fvs \<subseteq> set ids
       else if op = Some ''nallof'' then \<not> JStr ` set fvs \<subseteq> set ids
       else if op = Some ''empty'' \<or> op = Some ''blank'' then ids = []
       else if op = Some ''notempty'' \<or> op = Some ''notblank'' then ids \<noteq> []
       else False"
  have leaf: "evalLeaf E client col op sub v data =
     (case userLeaf op v (getField data (title col)) of
        Inl e \<Rightarrow> Inl e | Inr res \<Rightarrow> Inr (Res res))"
    using assms(1) by (auto simp: evalLeaf_def Let_def)
  have res: "evalLeaf E client col op sub v data = Inr (Res (JBool ?b))"
    unfolding leaf by (simp add: userLeaf_result[OF ids fvs])
  have a: "evalFilter E client (Leaf col op sub v lop) data = Inr (Res (JBool ?b))"
    using res by simp
  have b: "validateCondition E client [Leaf col op sub v None] data = Inr (JBool ?b)"
    using res by (simp add: combine_def jsAnd_def jsNullish_def)
  have "\<exists>ids fvs.
       userIds (getField data (title col)) = Inr ids \<and> filterValueList v = Inr fvs
       \<and> evalFilter E client (Leaf col op sub v lop) data =
         Inr (Res (JBool (
           if op = Some ''anyof'' then set ids \<inter> JStr ` set fvs \<noteq> {}
           else if op = Some ''nanyof'' then set ids \<inter> JStr ` set fvs = {}
           else if op = Some ''allof'' then JStr ` set fvs \<subseteq> set ids
           else if op = Some ''nallof'' then \<not> JStr ` set fvs \<subseteq> set ids
           else if op = Some ''empty'' \<or> op = Some ''blank'' then ids = []
           else if op = Some ''notempty'' \<or> op = Some ''notblank'' then ids \<noteq> []
           else False)))
       \<and> validateCondition E client [Leaf col op sub v None] data =
         Inr (JBool (
           if op = Some ''anyof'' then set ids \<inter> JStr ` set fvs \<noteq> {}
           else if op = Some ''nanyof'' then set ids \<inter> JStr ` set fvs = {}
           else if op = Some ''allof'' then JStr ` set fvs \<subseteq> set ids
           else if op = Some ''nallof'' then \<not> JStr ` set fvs \<subseteq> set ids
           else if op = Some ''empty'' \<or> op = Some ''blank'' then ids = []
           else if op = Some ''notempty'' \<or> op = Some ''notblank'' then ids \<noteq> []
           else False))"
    using ids fvs a b by blast
  then show ?thesis
    using sp tr by (simp only: userIds_shapes filterValueList_shapes simp_thms)
qed

text \<open>
  The theorem at the record ids \<^verbatim>\<open>u1\<close>, \<^verbatim>\<open>u2\<close> and the filter value \<^verbatim>\<open>'u2, u3'\<close>: \<^verbatim>\<open>anyof\<close>
  is true, \<^verbatim>\<open>allof\<close> is false, and the unsupported \<^verbatim>\<open>eq\<close> is false. Against \<^verbatim>\<open>'u1, u2'\<close>
  and \<^verbatim>\<open>' u2 ,u1'\<close>, \<^verbatim>\<open>allof\<close> holds only because the pieces are split and trimmed.
\<close>

theorem user_filter_witness:
  "evalFilter exampleEnv None (Leaf ownerColumn (Some ''anyof'') None (JStr ''u2, u3'') None)
     annRecord = Inr (Res (JBool True))
   \<and> evalFilter exampleEnv None (Leaf ownerColumn (Some ''allof'') None (JStr ''u2, u3'') None)
     annRecord = Inr (Res (JBool False))
   \<and> evalFilter exampleEnv None (Leaf ownerColumn (Some ''eq'') None (JStr ''u2, u3'') None)
     annRecord = Inr (Res (JBool False))
   \<and> validateCondition exampleEnv None
       [Leaf ownerColumn (Some ''anyof'') None (JStr ''u2, u3'') None] annRecord
     = Inr (JBool True)
   \<and> evalFilter exampleEnv None (Leaf ownerColumn (Some ''allof'') None (JStr ''u1, u2'') None)
     annRecord = Inr (Res (JBool True))
   \<and> evalFilter exampleEnv None (Leaf ownerColumn (Some ''nallof'') None (JStr '' u2 ,u1'') None)
     annRecord = Inr (Res (JBool False))
   \<and> evalFilter exampleEnv None (Leaf ownerColumn (Some ''anyof'') None (JStr ''u1u2'') None)
     annRecord = Inr (Res (JBool False))
   \<and> jsSplit CHR '','' ''u1, u2'' = [''u1'', '' u2'']
   \<and> trim '' u2'' = ''u2''"
proof -
  have 1: "uidt ownerColumn \<in> {User, CreatedBy, LastModifiedBy}"
    by (simp add: ownerColumn_def)
  have 2: "JStr ''u2, u3'' = JUndefined \<or> JStr ''u2, u3'' = JNull \<or> (\<exists>s. JStr ''u2, u3'' = JStr s)"
    by simp
  have 3: "\<forall>us. getField annRecord (title ownerColumn) = JArr us \<longrightarrow>
             JNull \<notin> set us \<and> JUndefined \<notin> set us"
    by (auto simp: ownerColumn_def annRecord_def getField_def objectPrototypeKeys_def)
  have i: "userIds (getField annRecord (title ownerColumn)) = Inr [JStr ''u1'', JStr ''u2'']"
    by (simp add: ownerColumn_def annRecord_def getField_def objectPrototypeKeys_def userIds_def)
  have f: "filterValueList (JStr ''u2, u3'') = Inr [''u2'', ''u3'']"
    by (simp add: filterValueList_def trim_def isWhiteSpace_def)
  note t = user_filter[OF 1 2 3, where E = exampleEnv and client = None and sub = None
      and lop = None]
  have a: "evalFilter exampleEnv None
       (Leaf ownerColumn (Some ''anyof'') None (JStr ''u2, u3'') None) annRecord
     = Inr (Res (JBool True))"
    using t[where op = "Some ''anyof''", THEN conjunct1] i f by auto
  have b: "evalFilter exampleEnv None
       (Leaf ownerColumn (Some ''allof'') None (JStr ''u2, u3'') None) annRecord
     = Inr (Res (JBool False))"
    using t[where op = "Some ''allof''", THEN conjunct1] i f by auto
  have c: "evalFilter exampleEnv None
       (Leaf ownerColumn (Some ''eq'') None (JStr ''u2, u3'') None) annRecord
     = Inr (Res (JBool False))"
    using t[where op = "Some ''eq''", THEN conjunct1] i f by auto
  have d: "validateCondition exampleEnv None
       [Leaf ownerColumn (Some ''anyof'') None (JStr ''u2, u3'') None] annRecord
     = Inr (JBool True)"
    using t[where op = "Some ''anyof''", THEN conjunct1] i f by auto
  have e: "evalFilter exampleEnv None
       (Leaf ownerColumn (Some ''allof'') None (JStr ''u1, u2'') None) annRecord
     = Inr (Res (JBool True))"
    using user_filter[OF 1 _ 3, where v = "JStr ''u1, u2''" and E = exampleEnv and client = None
        and sub = None and lop = None and op = "Some ''allof''", THEN conjunct1] i
    by (auto simp: filterValueList_def trim_def isWhiteSpace_def)
  have g: "evalFilter exampleEnv None
       (Leaf ownerColumn (Some ''nallof'') None (JStr '' u2 ,u1'') None) annRecord
     = Inr (Res (JBool False))"
    using user_filter[OF 1 _ 3, where v = "JStr '' u2 ,u1''" and E = exampleEnv and client = None
        and sub = None and lop = None and op = "Some ''nallof''", THEN conjunct1] i
    by (auto simp: filterValueList_def trim_def isWhiteSpace_def)
  have h: "evalFilter exampleEnv None
       (Leaf ownerColumn (Some ''anyof'') None (JStr ''u1u2'') None) annRecord
     = Inr (Res (JBool False))"
    using user_filter[OF 1 _ 3, where v = "JStr ''u1u2''" and E = exampleEnv and client = None
        and sub = None and lop = None and op = "Some ''anyof''", THEN conjunct1] i
    by (auto simp: filterValueList_def trim_def isWhiteSpace_def)
  have "jsSplit CHR '','' (''u1'' @ CHR '','' # '' u2'')
           = ''u1'' # jsSplit CHR '','' '' u2''
         \<and> jsSplit CHR '','' ''u1'' = [''u1'']"
    by (rule user_filter[OF 1 2 3, THEN conjunct2, THEN conjunct2, THEN conjunct2, THEN conjunct2, THEN conjunct2, THEN conjunct2, THEN conjunct2, THEN conjunct2, THEN conjunct1, THEN mp]) simp
  then have s: "jsSplit CHR '','' ''u1, u2'' = [''u1'', '' u2'']"
    by simp
  have "trim ('' '' @ ''u2'' @ []) = ''u2''"
    by (rule user_filter[OF 1 2 3, THEN conjunct2, THEN conjunct2, THEN conjunct2, THEN conjunct2, THEN conjunct2, THEN conjunct2, THEN conjunct2, THEN conjunct2, THEN conjunct2, THEN mp])
       (simp add: isWhiteSpace_def)
  then have w: "trim '' u2'' = ''u2''"
    by simp
  show ?thesis using a b c d e g h s w by simp
qed

section \<open>Properties of the webhook dispatch\<close>

lemma round_thousandths:
  "nat \<lfloor>(of_nat a + of_nat b / 1000000 :: rat) * 1000 + 1 / 2\<rfloor> = a * 1000 + (b + 500) div 1000"
proof -
  have "(of_nat a + of_nat b / 1000000 :: rat) * 1000 + 1 / 2
      = of_nat (a * 1000000 + b + 500) / of_nat 1000"
    by (simp add: field_simps)
  then have "\<lfloor>(of_nat a + of_nat b / 1000000 :: rat) * 1000 + 1 / 2\<rfloor>
      = int ((a * 1000000 + b + 500) div 1000)"
    by (simp only: floor_divide_of_nat_eq)
  then show ?thesis by simp
qed

lemma round_elapsed:
  "nat \<lfloor>(of_nat a * 1000 + of_nat b / 1000000 :: rat) * 1000 + 1 / 2\<rfloor>
     = a * 1000000 + (b + 500) div 1000"
proof -
  have "(of_nat a * 1000 + of_nat b / 1000000 :: rat) * 1000 + 1 / 2
      = of_nat (a * 1000000000 + b + 500) / of_nat 1000"
    by (simp add: field_simps)
  then have "\<lfloor>(of_nat a * 1000 + of_nat b / 1000000 :: rat) * 1000 + 1 / 2\<rfloor>
      = int ((a * 1000000000 + b + 500) div 1000)"
    by (simp only: floor_divide_of_nat_eq)
  then show ?thesis by simp
qed

lemma parseHrtime_thousandths:
  "parseHrtimeToMilliSeconds (s, ns) = showThousandths (s * 1000 + (ns + 500) div 1000)"
  by (simp only: parseHrtimeToMilliSeconds_def toFixed3_def round_thousandths fst_conv snd_conv)

lemma elapsed_thousandths:
  "toFixed3 (elapsedMilliseconds (s, ns)) = showThousandths (s * 1000000 + (ns + 500) div 1000)"
  by (simp only: elapsedMilliseconds_def toFixed3_def round_elapsed fst_conv snd_conv)

text \<open>
  C8. The execution time of the log record is meant to be the elapsed time in
  milliseconds with three decimals, but \<^verbatim>\<open>parseHrtimeToMilliSeconds\<close> adds the whole seconds
  to the milliseconds of the remainder without scaling them: an invocation of 2.5
  seconds is logged as \<^verbatim>\<open>502.000\<close>, not as \<^verbatim>\<open>2500.000\<close>. Below one second the logged value
  is the elapsed time.
\<close>

theorem execution_time_seconds_unscaled:
  "parseHrtimeToMilliSeconds (2, 500000000) = ''502.000''
   \<and> toFixed3 (elapsedMilliseconds (2, 500000000)) = ''2500.000''
   \<and> parseHrtimeToMilliSeconds (0, ns) = toFixed3 (elapsedMilliseconds (0, ns))"
  by (simp add: parseHrtime_thousandths elapsed_thousandths showThousandths_def digit_def
      showNat.simps)

text \<open>
  C7. \<^verbatim>\<open>parseBody\<close> never throws to its caller, whatever the template and the data are:
  when compiling or rendering fails it returns the template as it is, and a template that
  renders returns the rendering.
\<close>

theorem parseBody_never_throws:
  "(\<exists>s. parseBody hb template data = Inr s)
   \<and> (hb template (JObj [(''data'', data), (''event'', data)]) = Inl e \<longrightarrow>
        parseBody hb template data = Inr template)
   \<and> (template \<noteq> [] \<and> hb template (JObj [(''data'', data), (''event'', data)]) = Inr rendered \<longrightarrow>
        parseBody hb template data = Inr rendered)"
  by (auto simp: parseBody_def split: sum.splits)

text \<open>
  The theorem at the unbalanced template, which comes back unchanged, and at
  \<^verbatim>\<open>Hello {{data.name}}\<close> against \<^verbatim>\<open>{name: 'Ann'}\<close>.
\<close>

theorem parseBody_never_throws_witness:
  "parseBody exampleHandlebars ''Hello {{data.name'' (JObj [(''name'', JStr ''Ann'')])
     = Inr ''Hello {{data.name''
   \<and> parseBody exampleHandlebars ''Hello {{data.name}}'' (JObj [(''name'', JStr ''Ann'')])
     = Inr ''Hello Ann''"
proof -
  have a: "parseBody exampleHandlebars ''Hello {{data.name'' (JObj [(''name'', JStr ''Ann'')])
     = Inr ''Hello {{data.name''"
    by (rule parseBody_never_throws[where e = "ExternalError ''Parse error''",
          THEN conjunct2, THEN conjunct1, THEN mp])
       (simp add: exampleHandlebars_def)
  have b: "parseBody exampleHandlebars ''Hello {{data.name}}'' (JObj [(''name'', JStr ''Ann'')])
     = Inr ''Hello Ann''"
    by (rule parseBody_never_throws[THEN conjunct2, THEN conjunct2, THEN mp])
       (simp add: exampleHandlebars_def getField_def objectPrototypeKeys_def)
  show ?thesis using a b by simp
qed

text \<open>
  C5. For a v2 hook with the operation \<^verbatim>\<open>bulkInsert\<close> and an array of new records, the
  envelope has the type \<^verbatim>\<open>records.<event>.bulkInsert\<close> and the id drawn from \<^verbatim>\<open>uuidv4()\<close>; its
  data holds \<^verbatim>\<open>table_id\<close>, \<^verbatim>\<open>table_name\<close> and \<^verbatim>\<open>rows_inserted\<close>, the number of records, and
  no \<^verbatim>\<open>rows\<close> key.
\<close>

theorem bulkInsert_envelope:
  assumes "version h = ''v2''" and "operation h = ''bulkInsert''" and "newData = JArr rows"
  shows "\<exists>d. constructWebHookData uuid h m prevData newData =
            JObj [(''type'', JStr (''records.'' @ event h @ ''.bulkInsert'')),
                  (''id'', JStr uuid), (''data'', JObj d)]
          \<and> map_of d ''table_id'' = Some (JStr (model_id m))
          \<and> map_of d ''table_name'' = Some (JStr (model_title m))
          \<and> map_of d ''rows_inserted'' = Some (JNum (int (length rows)))
          \<and> map_of d ''rows'' = None"
  using assms by (simp add: constructWebHookData_def)

text \<open>The theorem at a bulk insert of five rows on the v2 URL hook.\<close>

theorem bulkInsert_envelope_witness:
  "\<exists>d. constructWebHookData ''6f1c'' urlHook tasksModel JUndefined
          (JArr (replicate 5 (JObj annRecord)))
        = JObj [(''type'', JStr ''records.after.bulkInsert''), (''id'', JStr ''6f1c''),
                (''data'', JObj d)]
      \<and> map_of d ''rows_inserted'' = Some (JNum 5) \<and> map_of d ''rows'' = None"
proof -
  have 1: "version urlHook = ''v2''" and 2: "operation urlHook = ''bulkInsert''"
    by (simp_all add: urlHook_def)
  from bulkInsert_envelope[OF 1 2 refl, of "''6f1c''" tasksModel JUndefined
      "replicate 5 (JObj annRecord)"]
  show ?thesis by (auto simp: urlHook_def)
qed

lemma validateCondition_Nil: "validateCondition E client [] data = Inr (JBool True)"
  by simp

lemma gate_single:
  assumes "condition h" and "\<not> testHook"
    and "filters = (case testFilters of Some fs \<Rightarrow> fs | None \<Rightarrow> storedFilters)"
  shows "invokeWebhookGate E h testHook testFilters storedFilters client prevData (Single row) =
     (case (case prevData of
              None \<Rightarrow> Inr False
            | Some prev \<Rightarrow>
                if filters = [] then Inr False
                else (case validateCondition E client filters prev of
                        Inl e \<Rightarrow> Inl e
                      | Inr v \<Rightarrow> Inr (truthy v))) of
        Inl e \<Rightarrow> Inl e
      | Inr True \<Rightarrow> Inr Skipped
      | Inr False \<Rightarrow>
          (case validateCondition E client filters row of
             Inl e \<Rightarrow> Inl e
           | Inr v \<Rightarrow> if \<not> truthy v then Inr Skipped else Inr (Proceed (Single row))))"
  using assms(1,2) unfolding assms(3) invokeWebhookGate_def Let_def
  by (cases prevData) (simp_all del: validateCondition.simps)

text \<open>
  C4. For a single record, a hook with \<^verbatim>\<open>condition\<close> set and no test invocation:
  \<^verbatim>\<open>invokeWebhook\<close> returns without delivering when \<^verbatim>\<open>prevData\<close> is present, there are
  filters and they evaluate to a truthy value on \<^verbatim>\<open>prevData\<close>; otherwise it returns
  without delivering when the filters do not evaluate to a truthy value on \<^verbatim>\<open>newData\<close>; and
  it goes on to deliver, the record unchanged, exactly when \<^verbatim>\<open>prevData\<close> did not match
  and \<^verbatim>\<open>newData\<close> matches.
\<close>

theorem single_record_gate:
  assumes "condition h" and "\<not> testHook"
    and "filters = (case testFilters of Some fs \<Rightarrow> fs | None \<Rightarrow> storedFilters)"
  shows
   "(prevData = Some prev \<and> filters \<noteq> []
       \<and> validateCondition E client filters prev = Inr v \<and> truthy v \<longrightarrow>
     invokeWebhookGate E h testHook testFilters storedFilters client prevData (Single row)
       = Inr Skipped)
    \<and> ((prevData = None \<or> filters = []
          \<or> (\<exists>p u. prevData = Some p \<and> validateCondition E client filters p = Inr u \<and> \<not> truthy u))
        \<and> validateCondition E client filters row = Inr w \<and> \<not> truthy w \<longrightarrow>
     invokeWebhookGate E h testHook testFilters storedFilters client prevData (Single row)
       = Inr Skipped)
    \<and> (invokeWebhookGate E h testHook testFilters storedFilters client prevData (Single row)
          = Inr (Proceed nd)
        \<longleftrightarrow> nd = Single row
            \<and> (prevData = None \<or> filters = []
                \<or> (\<exists>p u. prevData = Some p \<and> validateCondition E client filters p = Inr u
                       \<and> \<not> truthy u))
            \<and> (\<exists>w. validateCondition E client filters row = Inr w \<and> truthy w))"
proof (intro conjI impI)
  assume "prevData = Some prev \<and> filters \<noteq> []
       \<and> validateCondition E client filters prev = Inr v \<and> truthy v"
  then show "invokeWebhookGate E h testHook testFilters storedFilters client prevData (Single row)
       = Inr Skipped"
    by (simp add: gate_single[OF assms] del: validateCondition.simps)
next
  assume "(prevData = None \<or> filters = []
          \<or> (\<exists>p u. prevData = Some p \<and> validateCondition E client filters p = Inr u \<and> \<not> truthy u))
        \<and> validateCondition E client filters row = Inr w \<and> \<not> truthy w"
  then show "invokeWebhookGate E h testHook testFilters storedFilters client prevData (Single row)
       = Inr Skipped"
    by (auto simp: gate_single[OF assms] validateCondition_Nil simp del: validateCondition.simps
          split: option.splits)
next
  show "invokeWebhookGate E h testHook testFilters storedFilters client prevData (Single row)
          = Inr (Proceed nd)
        \<longleftrightarrow> nd = Single row
            \<and> (prevData = None \<or> filters = []
                \<or> (\<exists>p u. prevData = Some p \<and> validateCondition E client filters p = Inr u
                       \<and> \<not> truthy u))
            \<and> (\<exists>w. validateCondition E client filters row = Inr w \<and> truthy w)"
    by (cases prevData; cases "filters = []")
       (auto simp: gate_single[OF assms] simp del: validateCondition.simps
             split: sum.splits bool.splits if_splits)
qed

text \<open>
  The theorem on the filter \<^verbatim>\<open>Name = 'Ann'\<close>: an update from Ann to Ann is suppressed, one
  from Bob to Bob does not match, and one from Bob to Ann is delivered.
\<close>

theorem single_record_gate_witness:
  "invokeWebhookGate exampleEnv urlHook False None [nameIs ''Ann'' None] (Some ''pg'')
     (Some annRecord) (Single annRecord) = Inr Skipped
   \<and> invokeWebhookGate exampleEnv urlHook False None [nameIs ''Ann'' None] (Some ''pg'')
     (Some bobRecord) (Single bobRecord) = Inr Skipped
   \<and> invokeWebhookGate exampleEnv urlHook False None [nameIs ''Ann'' None] (Some ''pg'')
     (Some bobRecord) (Single annRecord) = Inr (Proceed (Single annRecord))"
proof -
  have c: "condition urlHook" by (simp add: urlHook_def)
  have f: "[nameIs ''Ann'' None] = (case None of Some fs \<Rightarrow> fs | None \<Rightarrow> [nameIs ''Ann'' None])"
    by simp
  have ann: "validateCondition exampleEnv (Some ''pg'') [nameIs ''Ann'' None] annRecord
      = Inr (JBool True)"
    by (simp add: exampleEnv_def nameIs_def nameColumn_def annRecord_def evalLeaf_def
        otherLeaf_def getField_def objectPrototypeKeys_def combine_def jsAnd_def jsNullish_def)
  have bob: "validateCondition exampleEnv (Some ''pg'') [nameIs ''Ann'' None] bobRecord
      = Inr (JBool False)"
    by (simp add: exampleEnv_def nameIs_def nameColumn_def bobRecord_def evalLeaf_def
        otherLeaf_def getField_def objectPrototypeKeys_def combine_def jsAnd_def jsNullish_def)
  have nt: "\<not> False" by simp
  note t = single_record_gate[OF c nt f, where E = exampleEnv and client = "Some ''pg''"]
  have 1: "invokeWebhookGate exampleEnv urlHook False None [nameIs ''Ann'' None] (Some ''pg'')
     (Some annRecord) (Single annRecord) = Inr Skipped"
    using t[where prevData = "Some annRecord" and prev = annRecord and v = "JBool True"
              and row = annRecord, THEN conjunct1] ann
    by (simp del: validateCondition.simps)
  have 2: "invokeWebhookGate exampleEnv urlHook False None [nameIs ''Ann'' None] (Some ''pg'')
     (Some bobRecord) (Single bobRecord) = Inr Skipped"
    using t[where prevData = "Some bobRecord" and row = bobRecord and w = "JBool False",
            THEN conjunct2, THEN conjunct1] bob
    by (simp del: validateCondition.simps)
  have 3: "invokeWebhookGate exampleEnv urlHook False None [nameIs ''Ann'' None] (Some ''pg'')
     (Some bobRecord) (Single annRecord) = Inr (Proceed (Single annRecord))"
    using t[where prevData = "Some bobRecord" and row = annRecord and nd = "Single annRecord",
            THEN conjunct2, THEN conjunct2] ann bob
    by (simp del: validateCondition.simps)
  show ?thesis using 1 2 3 by simp
qed

section \<open>Properties of the lookup select query\<close>

lemma normalizeRelationType_hopKind: "normalizeRelationType c t = hopKind c t"
  by (cases t) (simp_all add: normalizeRelationType_def hopKind_def)

lemma firstHop_flag:
  assumes "nestedRelationColumn column = Inr relationCol"
    and "firstHop E base rootAlias relationCol alias n = Inr st"
  shows "\<exists>t. hopType column = Some t \<and> isBtLookup st = (t = BELONGS_TO)"
  using assms
  by (cases "colOptions relationCol")
     (auto simp: firstHop_def hopType_def Let_def normalizeRelationType_hopKind
           split: if_splits)

lemma nestedHop_flag:
  assumes "nestedHop E base alias c st = Inr st'"
  shows "\<exists>t. hopType c = Some t \<and> isBtLookup st' = (isBtLookup st \<and> t = BELONGS_TO)"
proof -
  obtain relationCol where r: "nestedRelationColumn c = Inr relationCol"
    using assms by (auto simp: nestedHop_def Let_def split: sum.splits)
  show ?thesis
    using assms r
    by (cases "colOptions relationCol")
       (auto simp: nestedHop_def hopType_def Let_def normalizeRelationType_hopKind
             split: if_splits)
qed

lemma nestedHops_flag:
  "nestedHops E base a0 c st = Inr (terminal, st') \<Longrightarrow>
   isBtLookup st' = (isBtLookup st \<and> list_all (\<lambda>t. t = BELONGS_TO) (hopsFrom c))"
proof (induction E base a0 c st rule: nestedHops.induct)
  case (1 E base a0 lookupColumn st)
  show ?case
  proof (cases "col_uidt lookupColumn = Lookup \<or> col_uidt lookupColumn = LinkToAnotherRecord")
    case False
    then have "hopsFrom lookupColumn = []"
      by (simp add: hopsFrom.simps[of lookupColumn])
    then show ?thesis
      using "1.prems" False by (auto simp: nestedHops.simps[of E base a0 lookupColumn st])
  next
    case True
    from "1.prems" True obtain st1 nxt where
      h: "nestedHop E base a0 lookupColumn st = Inr st1"
      and n: "nextLookupColumn lookupColumn = Inr nxt"
      and r: "nestedHops E base a0 nxt st1 = Inr (terminal, st')"
      by (auto simp: nestedHops.simps[of E base a0 lookupColumn st] split: sum.splits)
    from nestedHop_flag[OF h] obtain t where
      t: "hopType lookupColumn = Some t" "isBtLookup st1 = (isBtLookup st \<and> t = BELONGS_TO)"
      by blast
    have ih: "isBtLookup st' = (isBtLookup st1 \<and> list_all (\<lambda>t. t = BELONGS_TO) (hopsFrom nxt))"
      using "1.IH"[OF True h n r] .
    have "hopsFrom lookupColumn = t # hopsFrom nxt"
      using True t(1) n by (simp add: hopsFrom.simps[of lookupColumn])
    then show ?thesis using ih t(2) by auto
  qed
qed

lemma terminalSelect_flag:
  "terminalSelect E isAggregation c st = Inr st' \<Longrightarrow>
   isBtLookup st' = isBtLookup st \<and> aliasCount st' = aliasCount st"
  by (auto simp: terminalSelect_def Let_def split: if_splits sum.splits)

lemma buildSelect_flag:
  assumes "buildSelect E base column rootAlias isAggregation n = Inr (lookupColumn, st)"
  shows "isBtLookup st = list_all (\<lambda>t. t = BELONGS_TO) (chainHops column)"
proof -
  from assms obtain relationCol st0 c0 st1 where
    r: "nestedRelationColumn column = Inr relationCol"
    and f: "firstHop E base rootAlias relationCol (aliasName E n) (Suc n) = Inr st0"
    and l: "firstLookupColumn column = Inr c0"
    and h: "nestedHops E base (aliasName E n) c0 st0 = Inr (lookupColumn, st1)"
    and s: "terminalSelect E isAggregation lookupColumn st1 = Inr st"
    by (auto simp: buildSelect_def Let_def split: if_splits sum.splits)
  from firstHop_flag[OF r f] obtain t where
    t: "hopType column = Some t" "isBtLookup st0 = (t = BELONGS_TO)" by blast
  have "chainHops column = t # hopsFrom c0"
    using t(1) l by (simp add: chainHops_def)
  then show ?thesis
    using nestedHops_flag[OF h] terminalSelect_flag[OF s] t(2) by auto
qed

text \<open>
  C2. When the builder gets as far as the decision on the aggregation, its flag
  \<^verbatim>\<open>isBtLookup\<close> is true exactly when every hop of the chain, one-to-one read as belongs-to
  or has-many by the marker \<^verbatim>\<open>meta.bt\<close> of the owning column, is belongs-to. Then the
  function returns the query it has built, as it is. With a has-many or many-to-many hop
  anywhere in the chain, a query it returns has the built query as its derived subquery,
  under the next alias, no join and no condition of its own, and one aggregation of the
  lookup column as its only select; and it returns one on Postgres, MySQL and SQLite.
\<close>

theorem belongsTo_chain_not_aggregated:
  assumes "buildSelect E base column rootAlias isAggregation n = Inr (lookupColumn, st)"
  shows "isBtLookup st = list_all (\<lambda>t. t = BELONGS_TO) (chainHops column)
     \<and> (list_all (\<lambda>t. t = BELONGS_TO) (chainHops column) \<longrightarrow>
          generateLookupSelectQuery E base column rootAlias isAggregation n = Inr (selectQb st))
     \<and> (\<not> list_all (\<lambda>t. t = BELONGS_TO) (chainHops column)
          \<and> generateLookupSelectQuery E base column rootAlias isAggregation n = Inr q \<longrightarrow>
          (\<exists>sql bindings.
             q = QueryBuilder (FromSub (selectQb st) (aliasName E (aliasCount st))) [] []
                   [SelectRaw (Raw sql (Ident (col_id lookupColumn) # bindings))]))
     \<and> (\<not> list_all (\<lambda>t. t = BELONGS_TO) (chainHops column)
          \<and> (isPg base \<or> isMySQL base \<or> isSqlite base) \<longrightarrow>
          (\<exists>sql bindings.
             generateLookupSelectQuery E base column rootAlias isAggregation n
               = Inr (QueryBuilder (FromSub (selectQb st) (aliasName E (aliasCount st))) [] []
                        [SelectRaw (Raw sql (Ident (col_id lookupColumn) # bindings))])))"
  using assms buildSelect_flag[OF assms]
  by (auto simp: generateLookupSelectQuery_def Let_def split: if_splits)

text \<open>
  The theorem at a chain of two belongs-to hops, at a chain of a has-many hop followed by
  a belongs-to hop, and at a one-to-one hop with the marker and without it: the first and
  the third come back as the join query, the second and the fourth as its aggregation.
\<close>

theorem belongsTo_chain_not_aggregated_witness:
  "chainHops subtaskProjectTitle = [BELONGS_TO, BELONGS_TO]
   \<and> generateLookupSelectQuery exampleLkEnv (baseOf subtasksModel True False False)
         subtaskProjectTitle ''t'' False 0 = Inr subtaskProjectTitleQuery
   \<and> chainHops projectTaskProjectTitles = [HAS_MANY, BELONGS_TO]
   \<and> generateLookupSelectQuery exampleLkEnv (baseOf projectsModel True False False)
         projectTaskProjectTitles ''t'' False 0
       = Inr (QueryBuilder (FromSub projectTaskProjectTitlesJoin ''__lk_slt_2'') [] []
                [SelectRaw (Raw ''json_agg(??)::text'' [Ident ''c_ptitle''])])
   \<and> chainHops kickoffTitleOwning = [BELONGS_TO]
   \<and> generateLookupSelectQuery exampleLkEnv (baseOf projectsModel True False False)
         kickoffTitleOwning ''t'' False 0 = Inr kickoffOwningQuery
   \<and> chainHops kickoffTitleOwned = [HAS_MANY]
   \<and> generateLookupSelectQuery exampleLkEnv (baseOf projectsModel True False False)
         kickoffTitleOwned ''t'' False 0
       = Inr (QueryBuilder (FromSub kickoffOwnedJoin ''__lk_slt_1'') [] []
                [SelectRaw (Raw ''json_agg(??)::text'' [Ident ''c_ttitle''])])"
proof -
  have h1: "chainHops subtaskProjectTitle = [BELONGS_TO, BELONGS_TO]"
    by (simp add: chainHops_def hopType_def hopKind_def hopsFrom.simps firstLookupColumn_def
        nextLookupColumn_def nestedRelationColumn_def getDisplayValueOfRefTable_def
        subtaskProjectTitle_def taskProjectTitle_def projectTaskProjectTitles_def
        kickoffTitleOwning_def kickoffTitleOwned_def oneToOneColumn_def lookupOf_def
        relationColumn_def plainColumn_def subtaskTask_def taskProject_def projectTasks_def
        projectTitle_def taskTitle_def)
  have h2: "chainHops projectTaskProjectTitles = [HAS_MANY, BELONGS_TO]"
    by (simp add: chainHops_def hopType_def hopKind_def hopsFrom.simps firstLookupColumn_def
        nextLookupColumn_def nestedRelationColumn_def getDisplayValueOfRefTable_def
        subtaskProjectTitle_def taskProjectTitle_def projectTaskProjectTitles_def
        kickoffTitleOwning_def kickoffTitleOwned_def oneToOneColumn_def lookupOf_def
        relationColumn_def plainColumn_def subtaskTask_def taskProject_def projectTasks_def
        projectTitle_def taskTitle_def)
  have h3: "chainHops kickoffTitleOwning = [BELONGS_TO]"
    by (simp add: chainHops_def hopType_def hopKind_def hopsFrom.simps firstLookupColumn_def
        nextLookupColumn_def nestedRelationColumn_def getDisplayValueOfRefTable_def
        subtaskProjectTitle_def taskProjectTitle_def projectTaskProjectTitles_def
        kickoffTitleOwning_def kickoffTitleOwned_def oneToOneColumn_def lookupOf_def
        relationColumn_def plainColumn_def subtaskTask_def taskProject_def projectTasks_def
        projectTitle_def taskTitle_def)
  have h4: "chainHops kickoffTitleOwned = [HAS_MANY]"
    by (simp add: chainHops_def hopType_def hopKind_def hopsFrom.simps firstLookupColumn_def
        nextLookupColumn_def nestedRelationColumn_def getDisplayValueOfRefTable_def
        subtaskProjectTitle_def taskProjectTitle_def projectTaskProjectTitles_def
        kickoffTitleOwning_def kickoffTitleOwned_def oneToOneColumn_def lookupOf_def
        relationColumn_def plainColumn_def subtaskTask_def taskProject_def projectTasks_def
        projectTitle_def taskTitle_def)
  have b1: "buildSelect exampleLkEnv (baseOf subtasksModel True False False) subtaskProjectTitle
       ''t'' False 0
     = Inr (projectTitle,
            \<lparr> selectQb = subtaskProjectTitleQuery, isBtLookup = True,
              prevAlias = ''__lk_slt_1'', aliasCount = 2 \<rparr>)"
    by (simp add: exampleLkEnv_def baseOf_def subtaskProjectTitle_def taskProjectTitle_def
        projectTaskProjectTitles_def kickoffTitleOwning_def kickoffTitleOwned_def
        oneToOneColumn_def lookupOf_def relationColumn_def plainColumn_def
        subtaskTask_def taskProject_def projectTasks_def projectTitle_def taskTitle_def
        tasksModel_def projectsModel_def subtasksModel_def buildSelect_def firstHop_def
        nestedRelationColumn_def nextLookupColumn_def firstLookupColumn_def
        getDisplayValueOfRefTable_def normalizeRelationType_def nestedHops.simps nestedHop_def
        terminalSelect_def Let_def qjoin_def qwhere_def qselect_def
        subtaskProjectTitleQuery_def projectTaskProjectTitlesJoin_def kickoffOwningQuery_def
        kickoffOwnedJoin_def showNat.simps digit_def)
  have b2: "buildSelect exampleLkEnv (baseOf projectsModel True False False)
       projectTaskProjectTitles ''t'' False 0
     = Inr (projectTitle,
            \<lparr> selectQb = projectTaskProjectTitlesJoin, isBtLookup = False,
              prevAlias = ''__lk_slt_1'', aliasCount = 2 \<rparr>)"
    by (simp add: exampleLkEnv_def baseOf_def subtaskProjectTitle_def taskProjectTitle_def
        projectTaskProjectTitles_def kickoffTitleOwning_def kickoffTitleOwned_def
        oneToOneColumn_def lookupOf_def relationColumn_def plainColumn_def
        subtaskTask_def taskProject_def projectTasks_def projectTitle_def taskTitle_def
        tasksModel_def projectsModel_def subtasksModel_def buildSelect_def firstHop_def
        nestedRelationColumn_def nextLookupColumn_def firstLookupColumn_def
        getDisplayValueOfRefTable_def normalizeRelationType_def nestedHops.simps nestedHop_def
        terminalSelect_def Let_def qjoin_def qwhere_def qselect_def
        subtaskProjectTitleQuery_def projectTaskProjectTitlesJoin_def kickoffOwningQuery_def
        kickoffOwnedJoin_def showNat.simps digit_def)
  have b3: "buildSelect exampleLkEnv (baseOf projectsModel True False False) kickoffTitleOwning
       ''t'' False 0
     = Inr (taskTitle,
            \<lparr> selectQb = kickoffOwningQuery, isBtLookup = True,
              prevAlias = ''__lk_slt_0'', aliasCount = 1 \<rparr>)"
    by (simp add: exampleLkEnv_def baseOf_def subtaskProjectTitle_def taskProjectTitle_def
        projectTaskProjectTitles_def kickoffTitleOwning_def kickoffTitleOwned_def
        oneToOneColumn_def lookupOf_def relationColumn_def plainColumn_def
        subtaskTask_def taskProject_def projectTasks_def projectTitle_def taskTitle_def
        tasksModel_def projectsModel_def subtasksModel_def buildSelect_def firstHop_def
        nestedRelationColumn_def nextLookupColumn_def firstLookupColumn_def
        getDisplayValueOfRefTable_def normalizeRelationType_def nestedHops.simps nestedHop_def
        terminalSelect_def Let_def qjoin_def qwhere_def qselect_def
        subtaskProjectTitleQuery_def projectTaskProjectTitlesJoin_def kickoffOwningQuery_def
        kickoffOwnedJoin_def showNat.simps digit_def)
  have b4: "buildSelect exampleLkEnv (baseOf projectsModel True False False) kickoffTitleOwned
       ''t'' False 0
     = Inr (taskTitle,
            \<lparr> selectQb = kickoffOwnedJoin, isBtLookup = False,
              prevAlias = ''__lk_slt_0'', aliasCount = 1 \<rparr>)"
    by (simp add: exampleLkEnv_def baseOf_def subtaskProjectTitle_def taskProjectTitle_def
        projectTaskProjectTitles_def kickoffTitleOwning_def kickoffTitleOwned_def
        oneToOneColumn_def lookupOf_def relationColumn_def plainColumn_def
        subtaskTask_def taskProject_def projectTasks_def projectTitle_def taskTitle_def
        tasksModel_def projectsModel_def subtasksModel_def buildSelect_def firstHop_def
        nestedRelationColumn_def nextLookupColumn_def firstLookupColumn_def
        getDisplayValueOfRefTable_def normalizeRelationType_def nestedHops.simps nestedHop_def
        terminalSelect_def Let_def qjoin_def qwhere_def qselect_def
        subtaskProjectTitleQuery_def projectTaskProjectTitlesJoin_def kickoffOwningQuery_def
        kickoffOwnedJoin_def showNat.simps digit_def)
  have g1: "generateLookupSelectQuery exampleLkEnv (baseOf subtasksModel True False False)
         subtaskProjectTitle ''t'' False 0 = Inr subtaskProjectTitleQuery"
    using belongsTo_chain_not_aggregated[OF b1, THEN conjunct2, THEN conjunct1] h1 by simp
  have g3: "generateLookupSelectQuery exampleLkEnv (baseOf projectsModel True False False)
         kickoffTitleOwning ''t'' False 0 = Inr kickoffOwningQuery"
    using belongsTo_chain_not_aggregated[OF b3, THEN conjunct2, THEN conjunct1] h3 by simp
  have pg: "isPg (baseOf projectsModel True False False)" by (simp add: baseOf_def)
  have "\<exists>sql bindings.
          generateLookupSelectQuery exampleLkEnv (baseOf projectsModel True False False)
            projectTaskProjectTitles ''t'' False 0
          = Inr (QueryBuilder (FromSub projectTaskProjectTitlesJoin ''__lk_slt_2'') [] []
                   [SelectRaw (Raw sql (Ident ''c_ptitle'' # bindings))])"
    using belongsTo_chain_not_aggregated[OF b2, THEN conjunct2, THEN conjunct2, THEN conjunct2]
      h2 pg
    by (simp add: exampleLkEnv_def showNat.simps digit_def projectTitle_def plainColumn_def)
  then have g2: "generateLookupSelectQuery exampleLkEnv (baseOf projectsModel True False False)
         projectTaskProjectTitles ''t'' False 0
       = Inr (QueryBuilder (FromSub projectTaskProjectTitlesJoin ''__lk_slt_2'') [] []
                [SelectRaw (Raw ''json_agg(??)::text'' [Ident ''c_ptitle''])])"
    unfolding generateLookupSelectQuery_def b2
    by (simp add: exampleLkEnv_def baseOf_def showNat.simps digit_def projectTitle_def
        plainColumn_def)
  have "\<exists>sql bindings.
          generateLookupSelectQuery exampleLkEnv (baseOf projectsModel True False False)
            kickoffTitleOwned ''t'' False 0
          = Inr (QueryBuilder (FromSub kickoffOwnedJoin ''__lk_slt_1'') [] []
                   [SelectRaw (Raw sql (Ident ''c_ttitle'' # bindings))])"
    using belongsTo_chain_not_aggregated[OF b4, THEN conjunct2, THEN conjunct2, THEN conjunct2]
      h4 pg
    by (simp add: exampleLkEnv_def showNat.simps digit_def taskTitle_def plainColumn_def)
  then have g4: "generateLookupSelectQuery exampleLkEnv (baseOf projectsModel True False False)
         kickoffTitleOwned ''t'' False 0
       = Inr (QueryBuilder (FromSub kickoffOwnedJoin ''__lk_slt_1'') [] []
                [SelectRaw (Raw ''json_agg(??)::text'' [Ident ''c_ttitle''])])"
    unfolding generateLookupSelectQuery_def b4
    by (simp add: exampleLkEnv_def baseOf_def showNat.simps digit_def taskTitle_def
        plainColumn_def)
  show ?thesis using h1 g1 h2 g2 h3 g3 h4 g4 by simp
qed

text \<open>
  C3. When some hop of the chain is not belongs-to, the function returns the query that
  selects, from the built query as a derived subquery, \<^verbatim>\<open>json_agg(col)::text\<close> on Postgres,
  \<^verbatim>\<open>cast(JSON_ARRAYAGG(col) as NCHAR)\<close> on MySQL and \<^verbatim>\<open>group_concat(col, '___')\<close> on SQLite, where
  \<^verbatim>\<open>col\<close> is the id of the lookup column; on any other dialect it fails with the
  not-implemented error and returns no query.
\<close>

theorem aggregation_by_dialect:
  assumes "buildSelect E base column rootAlias isAggregation n = Inr (lookupColumn, st)"
    and "\<not> list_all (\<lambda>t. t = BELONGS_TO) (chainHops column)"
  shows "generateLookupSelectQuery E base column rootAlias isAggregation n =
     (if isPg base then
        Inr (QueryBuilder (FromSub (selectQb st) (aliasName E (aliasCount st))) [] []
               [SelectRaw (Raw ''json_agg(??)::text'' [Ident (col_id lookupColumn)])])
      else if isMySQL base then
        Inr (QueryBuilder (FromSub (selectQb st) (aliasName E (aliasCount st))) [] []
               [SelectRaw (Raw ''cast(JSON_ARRAYAGG(??) as NCHAR)''
                  [Ident (col_id lookupColumn)])])
      else if isSqlite base then
        Inr (QueryBuilder (FromSub (selectQb st) (aliasName E (aliasCount st))) [] []
               [SelectRaw (Raw ''group_concat(??, ?)''
                  [Ident (col_id lookupColumn), Value ''___''])])
      else Inl (NotImplemented ''This operation on Lookup/LTAR for this database''))"
  using assms buildSelect_flag[OF assms(1)]
  by (simp add: generateLookupSelectQuery_def Let_def LOOKUP_VAL_SEPARATOR_def)

text \<open>
  The theorem at the chain with a has-many hop: the three aggregations over the join
  query of the chain, and the failure on a base model of no known dialect.
\<close>

theorem aggregation_by_dialect_witness:
  "generateLookupSelectQuery exampleLkEnv (baseOf projectsModel True False False)
       projectTaskProjectTitles ''t'' False 0
     = Inr (QueryBuilder (FromSub projectTaskProjectTitlesJoin ''__lk_slt_2'') [] []
              [SelectRaw (Raw ''json_agg(??)::text'' [Ident ''c_ptitle''])])
   \<and> generateLookupSelectQuery exampleLkEnv (baseOf projectsModel False True False)
       projectTaskProjectTitles ''t'' False 0
     = Inr (QueryBuilder (FromSub projectTaskProjectTitlesJoin ''__lk_slt_2'') [] []
              [SelectRaw (Raw ''cast(JSON_ARRAYAGG(??) as NCHAR)'' [Ident ''c_ptitle''])])
   \<and> generateLookupSelectQuery exampleLkEnv (baseOf projectsModel False False True)
       projectTaskProjectTitles ''t'' False 0
     = Inr (QueryBuilder (FromSub projectTaskProjectTitlesJoin ''__lk_slt_2'') [] []
              [SelectRaw (Raw ''group_concat(??, ?)'' [Ident ''c_ptitle'', Value ''___''])])
   \<and> generateLookupSelectQuery exampleLkEnv (baseOf projectsModel False False False)
       projectTaskProjectTitles ''t'' False 0
     = Inl (NotImplemented ''This operation on Lookup/LTAR for this database'')"
proof -
  have h: "\<not> list_all (\<lambda>t. t = BELONGS_TO) (chainHops projectTaskProjectTitles)"
    by (simp add: chainHops_def hopType_def hopKind_def hopsFrom.simps firstLookupColumn_def
        nextLookupColumn_def nestedRelationColumn_def getDisplayValueOfRefTable_def
        subtaskProjectTitle_def taskProjectTitle_def projectTaskProjectTitles_def
        kickoffTitleOwning_def kickoffTitleOwned_def oneToOneColumn_def lookupOf_def
        relationColumn_def plainColumn_def subtaskTask_def taskProject_def projectTasks_def
        projectTitle_def taskTitle_def)
  have b: "buildSelect exampleLkEnv (baseOf projectsModel pg mysql sqlite)
       projectTaskProjectTitles ''t'' False 0
     = Inr (projectTitle,
            \<lparr> selectQb = projectTaskProjectTitlesJoin, isBtLookup = False,
              prevAlias = ''__lk_slt_1'', aliasCount = 2 \<rparr>)" for pg mysql sqlite
    by (simp add: exampleLkEnv_def baseOf_def subtaskProjectTitle_def taskProjectTitle_def
        projectTaskProjectTitles_def kickoffTitleOwning_def kickoffTitleOwned_def
        oneToOneColumn_def lookupOf_def relationColumn_def plainColumn_def
        subtaskTask_def taskProject_def projectTasks_def projectTitle_def taskTitle_def
        tasksModel_def projectsModel_def subtasksModel_def buildSelect_def firstHop_def
        nestedRelationColumn_def nextLookupColumn_def firstLookupColumn_def
        getDisplayValueOfRefTable_def normalizeRelationType_def nestedHops.simps nestedHop_def
        terminalSelect_def Let_def qjoin_def qwhere_def qselect_def
        subtaskProjectTitleQuery_def projectTaskProjectTitlesJoin_def kickoffOwningQuery_def
        kickoffOwnedJoin_def showNat.simps digit_def)
  have a: "aliasName exampleLkEnv 2 = ''__lk_slt_2''"
    by (simp add: exampleLkEnv_def showNat.simps digit_def)
  have c: "col_id projectTitle = ''c_ptitle''"
    by (simp add: projectTitle_def plainColumn_def)
  have g1: "generateLookupSelectQuery exampleLkEnv (baseOf projectsModel True False False)
       projectTaskProjectTitles ''t'' False 0
     = Inr (QueryBuilder (FromSub projectTaskProjectTitlesJoin ''__lk_slt_2'') [] []
              [SelectRaw (Raw ''json_agg(??)::text'' [Ident ''c_ptitle''])])"
    using aggregation_by_dialect[OF b h] by (simp add: baseOf_def a c)
  have g2: "generateLookupSelectQuery exampleLkEnv (baseOf projectsModel False True False)
       projectTaskProjectTitles ''t'' False 0
     = Inr (QueryBuilder (FromSub projectTaskProjectTitlesJoin ''__lk_slt_2'') [] []
              [SelectRaw (Raw ''cast(JSON_ARRAYAGG(??) as NCHAR)'' [Ident ''c_ptitle''])])"
    using aggregation_by_dialect[OF b h] by (simp add: baseOf_def a c)
  have g3: "generateLookupSelectQuery exampleLkEnv (baseOf projectsModel False False True)
       projectTaskProjectTitles ''t'' False 0
     = Inr (QueryBuilder (FromSub projectTaskProjectTitlesJoin ''__lk_slt_2'') [] []
              [SelectRaw (Raw ''group_concat(??, ?)'' [Ident ''c_ptitle'', Value ''___''])])"
    using aggregation_by_dialect[OF b h] by (simp add: baseOf_def a c)
  have g4: "generateLookupSelectQuery exampleLkEnv (baseOf projectsModel False False False)
       projectTaskProjectTitles ''t'' False 0
     = Inl (NotImplemented ''This operation on Lookup/LTAR for this database'')"
    using aggregation_by_dialect[OF b h] by (simp add: baseOf_def)
  show ?thesis using g1 g2 g3 g4 by simp
qed

end
